theory Spec2Isabelle
  imports Complex_Main "HOL-Library.Word" "HOL-Library.Signed_Division" "HOL-Library.Monad_Syntax"
begin

section \<open>Flat-plate glider model with trapezoidal collocation\<close>

text \<open>
  A shallow embedding of \<^verbatim>\<open>include/fpgm_collocation.h\<close>.

  Conventions of the embedding.
  \<^item> A \<^verbatim>\<open>double\<close> is a \<^typ>\<open>real\<close>: arithmetic is exact and rounding is outside the
    model. A real zero stands for the positive zero of the machine.
  \<^item> A division whose divisor can be zero is the function \<open>double_div\<close>, whose result
    is a number, an infinity or not-a-number, as on the machine. The arctangent takes
    an infinity to \<open>\<plusminus> \<pi>/2\<close>. Where the source goes on computing with a value that is
    not a number, the model goes on with the real \<open>0\<close> (the function \<open>number\<close>); what it
    computes from there on is not the machine's result, and no property of a value
    of the dynamics is stated for such inputs.
  \<^item> \<^verbatim>\<open>Eigen::Vector2d\<close> is a pair of reals, \<^verbatim>\<open>Eigen::VectorXd\<close>, \<^verbatim>\<open>std::vector<double>\<close>
    and the raw arrays \<^verbatim>\<open>double *\<close> are lists of reals.
  \<^item> Reading or writing an array outside its bounds, and an Eigen product whose
    dimensions do not agree, are undefined behaviour in the source; the functions
    that can do so return an \<open>option\<close>, and \<open>None\<close> stands for that behaviour.
  \<^item> Array indices are natural numbers. The source computes them in \<^verbatim>\<open>int\<close>, which is
    exact as long as the residual count fits that type.
  \<^item> Output with \<^verbatim>\<open>printf\<close> is left out, except that the reads it makes are kept.
    \<^verbatim>\<open>load_parameters\<close>, which reads a file, and \<^verbatim>\<open>differential_flat_estimated_rotation\<close>,
    which nothing here calls, are not modelled.
  \<^item> Record fields are constants in HOL, so the one-letter members of the source are
    renamed: \<^verbatim>\<open>l\<close>, \<^verbatim>\<open>I\<close>, \<^verbatim>\<open>h\<close>, \<^verbatim>\<open>Q\<close>, \<^verbatim>\<open>R\<close> of \<^verbatim>\<open>fpgm_param\<close> are \<open>l_piv\<close>, \<open>inertia\<close>,
    \<open>h_step\<close>, \<open>Q_cost\<close>, \<open>R_cost\<close>; \<^verbatim>\<open>N\<close> of the class is \<open>N_steps\<close>; the members of
    \<^verbatim>\<open>control_state\<close> carry the prefix \<open>cs_\<close>.
\<close>

subsection \<open>Data\<close>

type_synonym vec2 = "real \<times> real"

text \<open>\<^verbatim>\<open>Eigen::MatrixXd\<close>: a matrix of run-time size.\<close>

record MatrixXd =
  rows :: nat
  cols :: nat
  coeff :: "nat \<Rightarrow> nat \<Rightarrow> real"

record fpgm_param =
  l_w :: real
  l_e :: real
  l_piv :: real
  s_w :: real
  s_e :: real
  mass :: real
  inertia :: real
  h_step :: real
  Q_cost :: MatrixXd
  R_cost :: real

record optimization_constrain =
  v_c :: real
  t_c :: real
  p_c :: real
  td_c :: real
  pd_c :: real
  ix :: "real list"
  iz :: "real list"

record combined_param =
  fp :: fpgm_param
  oc :: optimization_constrain

subsection \<open>Class \<^verbatim>\<open>equations_and_helper\<close>\<close>

definition cl :: "real \<Rightarrow> real" where
  "cl aoa = 2 * sin aoa * cos aoa"

definition cd :: "real \<Rightarrow> real" where
  "cd aoa = 2 * (sin aoa) ^ 2"

definition two_d_cross :: "vec2 \<Rightarrow> vec2 \<Rightarrow> real" where
  "two_d_cross v1 v2 = fst v1 * snd v2 - snd v1 * fst v2"

text \<open>The operations of \<^verbatim>\<open>Eigen::Vector2d\<close> that the dynamics use.\<close>

definition v2_scale :: "real \<Rightarrow> vec2 \<Rightarrow> vec2" where
  "v2_scale c v = (c * fst v, c * snd v)"

definition v2_add :: "vec2 \<Rightarrow> vec2 \<Rightarrow> vec2" where
  "v2_add a b = (fst a + fst b, snd a + snd b)"

definition v2_sub :: "vec2 \<Rightarrow> vec2 \<Rightarrow> vec2" where
  "v2_sub a b = (fst a - fst b, snd a - snd b)"

text \<open>
  The result of a division of two numbers, and of the functions applied to it: a
  number, an infinity, or not-a-number.
\<close>

datatype xdouble = Number real | PlusInfinity | MinusInfinity | NotANumber

text \<open>
  \<^verbatim>\<open>a / b\<close> on numbers. A zero divisor gives the infinity with the sign of \<open>a\<close>, and
  not-a-number when \<open>a\<close> is zero too. (The divisor is the positive zero; with the
  negative zero the two infinities change places.)
\<close>

definition double_div :: "real \<Rightarrow> real \<Rightarrow> xdouble" where
  "double_div a b =
     (if b \<noteq> 0 then Number (a / b)
      else if 0 < a then PlusInfinity
      else if a < 0 then MinusInfinity
      else NotANumber)"

text \<open>\<^verbatim>\<open>atan\<close> of the C library: defined at the infinities, not-a-number stays.\<close>

definition double_atan :: "xdouble \<Rightarrow> xdouble" where
  "double_atan q =
     (case q of Number r \<Rightarrow> Number (arctan r)
      | PlusInfinity \<Rightarrow> Number (pi / 2)
      | MinusInfinity \<Rightarrow> Number (- pi / 2)
      | NotANumber \<Rightarrow> NotANumber)"

text \<open>
  The real number a result stands for. An infinity and not-a-number stand for none:
  the model goes on with \<open>0\<close>.
\<close>

definition number :: "xdouble \<Rightarrow> real" where
  "number q = (case q of Number r \<Rightarrow> r | _ \<Rightarrow> 0)"

text \<open>Division of an \<^verbatim>\<open>Eigen::Vector2d\<close> by a scalar, coefficient by coefficient.\<close>

definition v2_div :: "vec2 \<Rightarrow> real \<Rightarrow> vec2" where
  "v2_div v c = (number (double_div (fst v) c), number (double_div (snd v) c))"

text \<open>
  The angle of attack of a surface with inclination \<open>incline\<close> and centroid velocity
  \<open>v\<close>, as both assignments \<^verbatim>\<open>alpha_w = theta - atan(x_w_dot[1] / x_w_dot[0])\<close> and
  \<^verbatim>\<open>alpha_e = theta + phi - atan(x_e_dot[1] / x_e_dot[0])\<close> compute it.
\<close>

definition surface_alpha :: "real \<Rightarrow> vec2 \<Rightarrow> xdouble" where
  "surface_alpha incline v =
     (case double_atan (double_div (snd v) (fst v)) of
        Number t \<Rightarrow> Number (incline - t)
      | _ \<Rightarrow> NotANumber)"

text \<open>
  \<^verbatim>\<open>fpgm_dynamics\<close>: the time derivative of the state. The local variables keep the
  names and the order of the source, the two centroid positions \<open>x_w\<close> and \<open>x_e\<close>
  included. The result is the machine's unless both components of a centroid
  velocity are zero, or the mass or the moment of inertia is zero.
\<close>

definition fpgm_dynamics ::
  "real \<Rightarrow> real \<Rightarrow> real \<Rightarrow> real \<Rightarrow> real \<Rightarrow> real \<Rightarrow> real \<Rightarrow> real \<Rightarrow> fpgm_param \<Rightarrow> real list" where
  "fpgm_dynamics x z theta phi xdot zdot thetadot phidot parameter =
    (let g = 9.81; p = 1.225;
         n_w = (- sin theta, cos theta);
         n_e = (- sin (theta + phi), cos (theta + phi));
         x_w = (x - l_w parameter * cos theta,
                z - l_w parameter * sin theta);
         x_e = (x - l_piv parameter * cos theta - l_e parameter * cos (theta + phi),
                z - l_piv parameter * sin theta - l_e parameter * sin (theta + phi));
         x_w_dot = (xdot + l_w parameter * thetadot * sin theta,
                    zdot - l_w parameter * thetadot * cos theta);
         x_e_dot = (xdot + l_piv parameter * thetadot * sin theta
                         + l_e parameter * (thetadot + phidot) * sin (theta + phi),
                    zdot - l_piv parameter * thetadot * cos theta
                         - l_e parameter * (thetadot + phidot) * cos (theta + phi));
         alpha_w = number (surface_alpha theta x_w_dot);
         alpha_e = number (surface_alpha (theta + phi) x_e_dot);
         force_w = v2_scale (0.5 * p * ((fst x_w_dot) ^ 2 + (snd x_w_dot) ^ 2)
                             * s_w parameter * (cl alpha_w + cd alpha_w)) n_w;
         force_e = v2_scale (0.5 * p * ((fst x_e_dot) ^ 2 + (snd x_e_dot) ^ 2)
                             * s_e parameter * (cl alpha_e + cd alpha_e)) n_e;
         pos_dotdot = v2_div (v2_sub (v2_add force_w force_e) (0, mass parameter * g))
                             (mass parameter);
         theta_dotdot =
           number (double_div
             (two_d_cross (l_w parameter, 0) force_w
              + two_d_cross (- l_piv parameter - l_e parameter * cos theta,
                             - l_piv parameter + l_e parameter * sin theta) force_e)
             (inertia parameter))
     in [xdot, zdot, thetadot, phidot, fst pos_dotdot, snd pos_dotdot, theta_dotdot])"

text \<open>
  \<^verbatim>\<open>std_vector_to_eigen_vector\<close> copies element by element into a vector of the same size.
\<close>

definition std_vector_to_eigen_vector :: "real list \<Rightarrow> real list" where
  "std_vector_to_eigen_vector x = map (\<lambda>i. x ! i) [0..<length x]"

text \<open>A checked read \<^verbatim>\<open>a[k]\<close>: \<open>None\<close> when \<open>k\<close> is outside the array.\<close>

definition rd :: "real list \<Rightarrow> nat \<Rightarrow> real option" where
  "rd a k = (if k < length a then Some (a ! k) else None)"

text \<open>
  \<^verbatim>\<open>set_bounded_constrains\<close> writes the two residuals of \<open>- bound \<le> x \<le> bound\<close> at
  \<open>index\<close> and \<open>index + 1\<close> of the array \<open>result\<close>, and returns the array.
\<close>

definition set_bounded_constrains :: "real list \<Rightarrow> nat \<Rightarrow> real \<Rightarrow> real \<Rightarrow> real list option" where
  "set_bounded_constrains result index x bound =
    (if index + 1 < length result
     then Some (result[index := - x - bound, index + 1 := x - bound])
     else None)"

subsection \<open>Loops and vectors\<close>

text \<open>
  A counting \<^verbatim>\<open>for\<close> loop over the indices of a list, threading the state the body
  updates; it stops at the first undefined step.
\<close>

fun for_each :: "nat list \<Rightarrow> (nat \<Rightarrow> 's \<Rightarrow> 's option) \<Rightarrow> 's \<Rightarrow> 's option" where
  "for_each [] body s = Some s"
| "for_each (i # rest) body s =
     (case body i s of None \<Rightarrow> None | Some s' \<Rightarrow> for_each rest body s')"

text \<open>Coefficient-wise operations of \<^verbatim>\<open>Eigen::VectorXd\<close>.\<close>

definition vec_add :: "real list \<Rightarrow> real list \<Rightarrow> real list" where
  "vec_add a b = map2 (+) a b"

definition vec_sub :: "real list \<Rightarrow> real list \<Rightarrow> real list" where
  "vec_sub a b = map2 (-) a b"

definition vec_scale :: "real \<Rightarrow> real list \<Rightarrow> real list" where
  "vec_scale c a = map ((*) c) a"

subsection \<open>The constraint callback \<^verbatim>\<open>collocation_eq_constraints\<close>\<close>

text \<open>
  The branch \<^verbatim>\<open>if (i < state_input_length - 1)\<close> of the loop body: the dynamics at
  knot \<open>i\<close> and at its successor, the trapezoidal defect and its seven residual pairs.
\<close>

definition dynamics_block :: "fpgm_param \<Rightarrow> real list \<Rightarrow> nat \<Rightarrow> real list \<Rightarrow> real list option" where
  "dynamics_block fpgm x i result = do {
     x1 \<leftarrow> those (map (rd x) [0 + 8 * i, 1 + 8 * i, 2 + 8 * i, 3 + 8 * i,
                             4 + 8 * i, 5 + 8 * i, 6 + 8 * i]);
     x2 \<leftarrow> those (map (rd x) [0 + 8 * (i + 1), 1 + 8 * (i + 1), 2 + 8 * (i + 1), 3 + 8 * (i + 1),
                             4 + 8 * (i + 1), 5 + 8 * (i + 1), 6 + 8 * (i + 1)]);
     u1 \<leftarrow> rd x (7 + 8 * i);
     u2 \<leftarrow> rd x (7 + 8 * (i + 1));
     let f_k = fpgm_dynamics (x1 ! 0) (x1 ! 1) (x1 ! 2) (x1 ! 3)
                 (x1 ! 4) (x1 ! 5) (x1 ! 6) u1 fpgm;
         f_k_1 = fpgm_dynamics (x2 ! 0) (x2 ! 1) (x2 ! 2) (x2 ! 3)
                 (x2 ! 4) (x2 ! 5) (x2 ! 6) u2 fpgm;
         x_k = std_vector_to_eigen_vector x1;
         x_k_1 = std_vector_to_eigen_vector x2;
         single_results_vector =
           vec_add (vec_sub x_k x_k_1) (vec_scale (h_step fpgm / 2) (vec_add f_k f_k_1))
     in for_each [0..<7]
          (\<lambda>j r. set_bounded_constrains r (j * 2 + i * 26) (single_results_vector ! j) 0.01)
          result
   }"

text \<open>The six box pairs that every knot gets, at offsets 14 to 25 of its block.\<close>

definition box_block :: "optimization_constrain \<Rightarrow> real list \<Rightarrow> nat \<Rightarrow> real list \<Rightarrow> real list option" where
  "box_block boundary x i result = do {
     a \<leftarrow> rd x (2 + i * 8);
     result \<leftarrow> set_bounded_constrains result (0 + 14 + i * 26) a (t_c boundary);
     a \<leftarrow> rd x (3 + i * 8);
     result \<leftarrow> set_bounded_constrains result (2 + 14 + i * 26) a (p_c boundary);
     a \<leftarrow> rd x (4 + i * 8);
     result \<leftarrow> set_bounded_constrains result (4 + 14 + i * 26) a (v_c boundary);
     a \<leftarrow> rd x (5 + i * 8);
     result \<leftarrow> set_bounded_constrains result (6 + 14 + i * 26) a (v_c boundary);
     a \<leftarrow> rd x (6 + i * 8);
     result \<leftarrow> set_bounded_constrains result (8 + 14 + i * 26) a (td_c boundary);
     a \<leftarrow> rd x (7 + i * 8);
     set_bounded_constrains result (10 + 14 + i * 26) a (pd_c boundary)
   }"

text \<open>The body of the loop over the knots.\<close>

definition knot_body ::
  "fpgm_param \<Rightarrow> optimization_constrain \<Rightarrow> nat \<Rightarrow> real list \<Rightarrow> nat \<Rightarrow> real list \<Rightarrow> real list option" where
  "knot_body fpgm boundary state_input_length x i result = do {
     result \<leftarrow> (if int i < int state_input_length - 1
                then dynamics_block fpgm x i result else Some result);
     box_block boundary x i result
   }"

text \<open>
  The callback. \<open>m\<close> and \<open>n\<close> are the counts the solver passes, \<open>result\<close> and \<open>x\<close> the
  arrays behind the two pointers; the gradient pointer is not used by the source and
  is left out. The function returns the array \<open>result\<close> as it stands at the end.
\<close>

definition collocation_eq_constraints ::
  "nat \<Rightarrow> real list \<Rightarrow> nat \<Rightarrow> real list \<Rightarrow> combined_param \<Rightarrow> real list option" where
  "collocation_eq_constraints m result n x data =
    (let fpgm = fp data; boundary = oc data; state_input_length = n div 8 in do {
       result \<leftarrow> for_each [0..<state_input_length]
                   (knot_body fpgm boundary state_input_length x) result;
       x0 \<leftarrow> rd x 0;
       ix0 \<leftarrow> rd (ix boundary) 0;
       result \<leftarrow> set_bounded_constrains result (0 + state_input_length * 26) x0 ix0;
       x1 \<leftarrow> rd x 1;
       iz0 \<leftarrow> rd (iz boundary) 0;
       set_bounded_constrains result (2 + state_input_length * 26) x1 iz0
     })"

subsection \<open>The objective callback \<^verbatim>\<open>control_effort_objective\<close>\<close>

text \<open>
  The product \<^verbatim>\<open>x1.transpose() * Q * x1\<close>, evaluated from the left: the row vector
  \<open>x1\<^sup>T Q\<close> first, then its product with \<open>x1\<close>. Eigen requires the inner dimensions to agree.
\<close>

definition quad_form :: "MatrixXd \<Rightarrow> real list \<Rightarrow> real option" where
  "quad_form Q v =
    (if rows Q = length v \<and> cols Q = length v
     then Some (sum_list (map (\<lambda>c. sum_list (map (\<lambda>r. v ! r * coeff Q r c) [0..<rows Q]) * v ! c)
                              [0..<cols Q]))
     else None)"

text \<open>The body of the loop over the knots: the new value of \<open>cost\<close>.\<close>

definition cost_body :: "fpgm_param \<Rightarrow> real list \<Rightarrow> nat \<Rightarrow> real \<Rightarrow> real option" where
  "cost_body fpgm x i cost = do {
     x1 \<leftarrow> those (map (rd x) [0 + 8 * i, 1 + 8 * i, 2 + 8 * i, 3 + 8 * i,
                             4 + 8 * i, 5 + 8 * i, 6 + 8 * i]);
     state_term \<leftarrow> quad_form (Q_cost fpgm) x1;
     u \<leftarrow> rd x (7 + 8 * i);
     let input_term = u * R_cost fpgm * u in
     Some (cost + (state_term + input_term))
   }"

text \<open>
  The callback: \<open>n\<close> is the count the solver passes, \<open>x\<close> the array behind the pointer;
  the gradient pointer is not used.
\<close>

definition control_effort_objective :: "nat \<Rightarrow> real list \<Rightarrow> combined_param \<Rightarrow> real option" where
  "control_effort_objective n x data =
    (let fpgm = fp data; boundary = oc data;
         factor = h_step fpgm;
         state_input_length = n div 8 in do {
       cost \<leftarrow> for_each [0..<state_input_length] (cost_body fpgm x) 0;
       x0 \<leftarrow> rd x 0;
       ix0 \<leftarrow> rd (ix boundary) 0;
       x1 \<leftarrow> rd x 1;
       iz0 \<leftarrow> rd (iz boundary) 0;
       let start_constrain = \<bar>x0 - ix0\<bar> + \<bar>x1 - iz0\<bar> in
       Some (cost * factor + 1000000 * start_constrain)
     })"

subsection \<open>Class \<^verbatim>\<open>fpgm_collocation\<close>: loader and driver\<close>

record fpgm_collocation =
  param :: fpgm_param
  boundary :: optimization_constrain
  N_steps :: int
  guess :: "real list"

record control_state =
  cs_x :: "real list"
  cs_z :: "real list"
  cs_theta :: "real list"
  cs_phi :: "real list"
  cs_vx :: "real list"
  cs_vz :: "real list"

text \<open>
  \<^verbatim>\<open>remainder\<close> of the C library: \<open>x - n y\<close> for the integer \<open>n\<close> nearest to \<open>x / y\<close>, a tie
  going to the even one. The result is exact.
\<close>

definition round_half_even :: "real \<Rightarrow> int" where
  "round_half_even q =
    (if frac q = 1 / 2 then (if even \<lfloor>q\<rfloor> then \<lfloor>q\<rfloor> else \<lfloor>q\<rfloor> + 1) else round q)"

definition remainder :: "real \<Rightarrow> real \<Rightarrow> real" where
  "remainder x y = x - of_int (round_half_even (x / y)) * y"

text \<open>The cast \<^verbatim>\<open>(int)x.size()\<close>: the size modulo \<open>2^32\<close>, read as a signed 32-bit value.\<close>

definition int_of_size :: "nat \<Rightarrow> int" where
  "int_of_size k = sint (word_of_nat k :: 32 word)"

text \<open>
  \<^verbatim>\<open>load_initial_guess\<close> returns its boolean together with the object's new state.
\<close>

definition load_initial_guess :: "fpgm_collocation \<Rightarrow> real list \<Rightarrow> bool \<times> fpgm_collocation" where
  "load_initial_guess self x =
    (let self = self\<lparr>guess := []\<rparr>;
         self = self\<lparr>guess := x\<rparr>
     in if remainder (of_int (int_of_size (length x))) 8 \<noteq> 0
        then (False, self)
        else (True, self\<lparr>N_steps := int_of_size (length x) sdiv 8\<rparr>))"

text \<open>
  The solver is the external library NLopt. Its handle \<^verbatim>\<open>nlopt_opt\<close> is the record of
  what the driver configures; the callbacks are stored with their data argument
  applied. The objective is registered with the address of the member \<^verbatim>\<open>param\<close> and
  read through a \<^verbatim>\<open>combined_param\<close> pointer; the model gives it the members \<open>param\<close> and
  \<open>boundary\<close> of the object.
\<close>

datatype nlopt_algorithm = NLOPT_LN_COBYLA

record nlopt_opt =
  algorithm :: nlopt_algorithm
  dimension :: nat
  min_objective :: "nat \<Rightarrow> real list \<Rightarrow> real option"
  ftol_abs :: real
  xtol_rel :: real
  maxeval :: int
  maxtime :: real
  inequality_mconstraints ::
    "(nat \<times> (nat \<Rightarrow> real list \<Rightarrow> nat \<Rightarrow> real list \<Rightarrow> real list option) \<times> real list) list"

text \<open>
  \<^verbatim>\<open>nlopt_optimization\<close>, in four parts. First the handle as the driver configures it,
  from \<^verbatim>\<open>nlopt_create\<close> to \<^verbatim>\<open>nlopt_add_inequality_mconstraint\<close>: the tolerance array
  has \<open>inequality_dimension\<close> entries, the first is \<open>1E-8\<close> and the initialiser leaves
  the others zero.
\<close>

definition configure :: "fpgm_collocation \<Rightarrow> nlopt_opt" where
  "configure self =
    (let dimension = N_steps self * 8;
         tolerance = 1 / 100000000;
         cp = \<lparr>fp = param self, oc = boundary self\<rparr>;
         inequality_dimension = 4 + N_steps self * 26;
         tol_ineq = tolerance # replicate (nat inequality_dimension - 1) 0
     in \<lparr>algorithm = NLOPT_LN_COBYLA,
         dimension = length (guess self),
         min_objective = (\<lambda>n x. control_effort_objective n x cp),
         ftol_abs = 1 / 1000000,
         xtol_rel = 1 / 10000,
         maxeval = 1000,
         maxtime = 0.5,
         inequality_mconstraints =
           [(nat inequality_dimension,
             (\<lambda>m result n x. collocation_eq_constraints m result n x cp),
             tol_ineq)]\<rparr>)"

text \<open>
  The loop that prints \<^verbatim>\<open>x[j+i*8] - guess[j+i*8]\<close>: it has no result, but it reads both
  arrays.
\<close>

definition print_guess_difference :: "int \<Rightarrow> real list \<Rightarrow> real list \<Rightarrow> unit option" where
  "print_guess_difference N x guess0 =
     for_each [0..<nat N]
       (\<lambda>i u. do {
          _ \<leftarrow> those (map (\<lambda>j. do {
                  a \<leftarrow> rd x (j + i * 8);
                  b \<leftarrow> rd guess0 (j + i * 8);
                  Some (a - b) }) [0..<8]);
          Some u }) ()"

text \<open>The loop that converts the solver's array back to the six sequences.\<close>

definition to_control_state :: "int \<Rightarrow> real list \<Rightarrow> control_state \<Rightarrow> control_state option" where
  "to_control_state N x final_vector =
     for_each [0..<nat N]
       (\<lambda>i fv. do {
          a0 \<leftarrow> rd x (0 + i * 8);
          a1 \<leftarrow> rd x (1 + i * 8);
          a2 \<leftarrow> rd x (2 + i * 8);
          a3 \<leftarrow> rd x (3 + i * 8);
          a4 \<leftarrow> rd x (4 + i * 8);
          a5 \<leftarrow> rd x (5 + i * 8);
          Some (fv\<lparr>cs_x := cs_x fv @ [a0], cs_z := cs_z fv @ [a1],
                   cs_theta := cs_theta fv @ [a2], cs_phi := cs_phi fv @ [a3],
                   cs_vx := cs_vx fv @ [a4], cs_vz := cs_vz fv @ [a5]\<rparr>)
        }) final_vector"

text \<open>
  The driver. The call \<^verbatim>\<open>nlopt_optimize\<close> is a parameter: it takes the handle and the
  start array and returns the array after the call together with the cost. The
  result is the trajectory together with the list of the handles on which the solver
  was invoked. A variable-length array of non-positive size is undefined behaviour.
\<close>

definition nlopt_optimization ::
  "(nlopt_opt \<Rightarrow> real list \<Rightarrow> real list \<times> real) \<Rightarrow> fpgm_collocation
     \<Rightarrow> (control_state \<times> nlopt_opt list) option" where
  "nlopt_optimization nlopt_optimize self =
    (let final_vector = \<lparr>cs_x = [], cs_z = [], cs_theta = [], cs_phi = [], cs_vx = [], cs_vz = []\<rparr>
     in if guess self = [] then Some (final_vector, [])
        else if 4 + N_steps self * 26 \<le> 0 then None
        else
          let opt = configure self;
              x = fst (nlopt_optimize opt (guess self))
          in do {
               _ \<leftarrow> print_guess_difference (N_steps self) x (guess self);
               final_vector \<leftarrow> to_control_state (N_steps self) x final_vector;
               Some (final_vector, [opt])
             })"

section \<open>Notions used to state the properties\<close>

text \<open>
  None of the definitions of this section is part of the program. They name what the
  properties speak about: the array after one pair of writes, the slice of the decision
  vector that belongs to a knot, the trapezoidal defect, and the contents a block of
  the residual array is expected to have.
\<close>

text \<open>The array after the two writes of \<open>set_bounded_constrains\<close>.\<close>

definition pairw :: "real list \<Rightarrow> nat \<Rightarrow> real \<Rightarrow> real \<Rightarrow> real list" where
  "pairw r idx v b = r[idx := - v - b, idx + 1 := v - b]"

text \<open>
  Knot \<open>i\<close> occupies the indices \<open>8 i, \<dots>, 8 i + 7\<close> of the decision vector: seven states,
  then the control. \<open>knot_deriv\<close> is the dynamics model at the knot and
  \<open>trapezoid_defect\<close> component \<open>j\<close> of
  \<open>state(i) - state(i+1) + (h/2) (deriv(i) + deriv(i+1))\<close>.
\<close>

definition knot_state :: "real list \<Rightarrow> nat \<Rightarrow> real list" where
  "knot_state x i = take 7 (drop (8 * i) x)"

definition knot_control :: "real list \<Rightarrow> nat \<Rightarrow> real" where
  "knot_control x i = x ! (8 * i + 7)"

definition knot_deriv :: "fpgm_param \<Rightarrow> real list \<Rightarrow> nat \<Rightarrow> real list" where
  "knot_deriv fpgm x i =
     (let s = knot_state x i in
      fpgm_dynamics (s ! 0) (s ! 1) (s ! 2) (s ! 3) (s ! 4) (s ! 5) (s ! 6) (knot_control x i) fpgm)"

definition trapezoid_defect :: "fpgm_param \<Rightarrow> real list \<Rightarrow> nat \<Rightarrow> nat \<Rightarrow> real" where
  "trapezoid_defect fpgm x i j =
     knot_state x i ! j - knot_state x (i + 1) ! j
     + h_step fpgm / 2 * (knot_deriv fpgm x i ! j + knot_deriv fpgm x (i + 1) ! j)"

text \<open>
  The array after the seven defect pairs of knot \<open>i\<close>, after its six box pairs, and
  after its whole loop body.
\<close>

definition defect_pairs :: "fpgm_param \<Rightarrow> real list \<Rightarrow> nat \<Rightarrow> real list \<Rightarrow> real list" where
  "defect_pairs fpgm x i r =
     pairw (pairw (pairw (pairw (pairw (pairw (pairw r
      (26*i) (trapezoid_defect fpgm x i 0) 0.01)
      (26*i+2) (trapezoid_defect fpgm x i 1) 0.01)
      (26*i+4) (trapezoid_defect fpgm x i 2) 0.01)
      (26*i+6) (trapezoid_defect fpgm x i 3) 0.01)
      (26*i+8) (trapezoid_defect fpgm x i 4) 0.01)
      (26*i+10) (trapezoid_defect fpgm x i 5) 0.01)
      (26*i+12) (trapezoid_defect fpgm x i 6) 0.01"

definition box_pairs :: "optimization_constrain \<Rightarrow> real list \<Rightarrow> nat \<Rightarrow> real list \<Rightarrow> real list" where
  "box_pairs bd x i r =
     pairw (pairw (pairw (pairw (pairw (pairw r (26*i+14) (x ! (8*i+2)) (t_c bd))
     (26*i+16) (x ! (8*i+3)) (p_c bd)) (26*i+18) (x ! (8*i+4)) (v_c bd)) (26*i+20) (x ! (8*i+5)) (v_c bd))
     (26*i+22) (x ! (8*i+6)) (td_c bd)) (26*i+24) (x ! (8*i+7)) (pd_c bd)"

text \<open>The twelve box residuals of knot \<open>i\<close>, in the order of the block.\<close>

definition box_values :: "optimization_constrain \<Rightarrow> real list \<Rightarrow> nat \<Rightarrow> real list" where
  "box_values bd x i =
    [- x ! (8*i+2) - t_c bd, x ! (8*i+2) - t_c bd,
     - x ! (8*i+3) - p_c bd, x ! (8*i+3) - p_c bd,
     - x ! (8*i+4) - v_c bd, x ! (8*i+4) - v_c bd,
     - x ! (8*i+5) - v_c bd, x ! (8*i+5) - v_c bd,
     - x ! (8*i+6) - td_c bd, x ! (8*i+6) - td_c bd,
     - x ! (8*i+7) - pd_c bd, x ! (8*i+7) - pd_c bd]"

text \<open>
  Block \<open>i\<close> of the array \<open>r'\<close> is as the loop body leaves it, for a run that started
  with the array \<open>r\<close>: the box residuals at offsets 14 to 25, and at offsets 0 to 13
  the defect pairs when the knot has a successor, the old contents when it has none.
\<close>

definition knot_ok :: "fpgm_param \<Rightarrow> optimization_constrain \<Rightarrow> nat \<Rightarrow> real list \<Rightarrow> real list \<Rightarrow> nat \<Rightarrow> real list \<Rightarrow> bool" where
  "knot_ok fpgm bd N x r i r' \<longleftrightarrow>
     (\<forall>p<12. r' ! (26 * i + 14 + p) = box_values bd x i ! p) \<and>
     (\<forall>j<7. if i + 1 < N
            then r' ! (26 * i + 2 * j) = - trapezoid_defect fpgm x i j - 0.01 \<and>
                 r' ! (26 * i + 2 * j + 1) = trapezoid_defect fpgm x i j - 0.01
            else r' ! (26 * i + 2 * j) = r ! (26 * i + 2 * j) \<and>
                 r' ! (26 * i + 2 * j + 1) = r ! (26 * i + 2 * j + 1))"

definition knot_step :: "fpgm_param \<Rightarrow> optimization_constrain \<Rightarrow> nat \<Rightarrow> real list \<Rightarrow> nat \<Rightarrow> real list \<Rightarrow> real list" where
  "knot_step fpgm bd N x i r = box_pairs bd x i (if i + 1 < N then defect_pairs fpgm x i r else r)"

text \<open>
  Concrete data for the instances: the glider of the end-to-end scenario with unit
  weights, its bounds, and the start target \<open>(0, 1)\<close>.
\<close>

definition identity7 :: MatrixXd where
  "identity7 = \<lparr>rows = 7, cols = 7, coeff = (\<lambda>r c. if r = c then 1 else 0)\<rparr>"

definition example_param :: fpgm_param where
  "example_param = \<lparr>l_w = 0.1, l_e = 0.05, l_piv = 0.15, s_w = 0.02, s_e = 0.01,
     mass = 0.1, inertia = 0.001, h_step = 0.1, Q_cost = identity7, R_cost = 1\<rparr>"

definition example_boundary :: optimization_constrain where
  "example_boundary = \<lparr>v_c = 5, t_c = 1, p_c = 1, td_c = 5, pd_c = 5, ix = [0], iz = [1]\<rparr>"

definition example_data :: combined_param where
  "example_data = \<lparr>fp = example_param, oc = example_boundary\<rparr>"







text \<open>An object of the class before any guess is loaded.\<close>

definition empty_loader :: fpgm_collocation where
  "empty_loader = \<lparr>param = example_param, boundary = example_boundary, N_steps = 0, guess = []\<rparr>"

text \<open>
  The cost in the words of the specification: \<open>state\<^sup>T Q state\<close> for a state of seven
  components, the cost of one knot, and
  \<open>h \<Sum>\<^sub>i (state\<^sub>i\<^sup>T Q state\<^sub>i + control\<^sub>i R control\<^sub>i) + 10\<^sup>6 (|x\<^sub>0 - ix[0]| + |z\<^sub>0 - iz[0]|)\<close>.
\<close>

definition quad_spec :: "MatrixXd \<Rightarrow> real list \<Rightarrow> real" where
  "quad_spec Q s = (\<Sum>r<7. \<Sum>c<7. s ! r * coeff Q r c * s ! c)"

definition knot_cost :: "fpgm_param \<Rightarrow> real list \<Rightarrow> nat \<Rightarrow> real" where
  "knot_cost fpgm x i =
     quad_spec (Q_cost fpgm) (knot_state x i) + knot_control x i * R_cost fpgm * knot_control x i"

definition cost_formula :: "combined_param \<Rightarrow> nat \<Rightarrow> real list \<Rightarrow> real" where
  "cost_formula data N x =
     h_step (fp data) * (\<Sum>i<N. knot_cost (fp data) x i)
     + 1000000 * (\<bar>x ! 0 - ix (oc data) ! 0\<bar> + \<bar>x ! 1 - iz (oc data) ! 0\<bar>)"

text \<open>A symmetric matrix of seven rows whose quadratic form is positive away from zero.\<close>

definition positive_definite :: "MatrixXd \<Rightarrow> bool" where
  "positive_definite Q \<longleftrightarrow>
     rows Q = 7 \<and> cols Q = 7 \<and> (\<forall>r<7. \<forall>c<7. coeff Q r c = coeff Q c r) \<and>
     (\<forall>v. length v = 7 \<and> (\<exists>r<7. v ! r \<noteq> 0) \<longrightarrow> 0 < quad_spec Q v)"

text \<open>
  Further data for the instances: a positive-definite weight matrix that couples pitch
  and elevator angle, the example with that matrix, and the example with a negative
  time step.
\<close>

definition coupled7 :: MatrixXd where
  "coupled7 = \<lparr>rows = 7, cols = 7,
     coeff = (\<lambda>r c. if r = c then 1 else if (r = 2 \<and> c = 3) \<or> (r = 3 \<and> c = 2) then - 1 / 2 else 0)\<rparr>"

definition coupled_data :: combined_param where
  "coupled_data = \<lparr>fp = example_param\<lparr>Q_cost := coupled7\<rparr>, oc = example_boundary\<rparr>"

definition reversed_data :: combined_param where
  "reversed_data = \<lparr>fp = example_param\<lparr>h_step := - 1 / 10\<rparr>, oc = example_boundary\<rparr>"

section \<open>Auxiliary lemmas\<close>

lemma rd_Some: "k < length a \<Longrightarrow> rd a k = Some (a ! k)"
  by (simp add: rd_def)

lemma length_pairw [simp]: "length (pairw r idx v b) = length r"
  by (simp add: pairw_def)

lemma nth_pairw:
  "idx + 1 < length r \<Longrightarrow>
     pairw r idx v b ! k = (if k = idx + 1 then v - b else if k = idx then - v - b else r ! k)"
  by (auto simp add: pairw_def nth_list_update)

lemma sbc_Some: "idx + 1 < length r \<Longrightarrow> set_bounded_constrains r idx v b = Some (pairw r idx v b)"
  by (simp add: set_bounded_constrains_def pairw_def)

lemma box_block_eq:
  assumes "8 * i + 8 \<le> length x" "26 * i + 26 \<le> length r"
  shows "box_block bd x i r = Some (pairw (pairw (pairw (pairw (pairw (pairw r (26*i+14) (x ! (8*i+2)) (t_c bd))
     (26*i+16) (x ! (8*i+3)) (p_c bd)) (26*i+18) (x ! (8*i+4)) (v_c bd)) (26*i+20) (x ! (8*i+5)) (v_c bd))
     (26*i+22) (x ! (8*i+6)) (td_c bd)) (26*i+24) (x ! (8*i+7)) (pd_c bd))"
  using assms by (simp add: box_block_def rd_Some sbc_Some add.commute mult.commute)

lemma knot_state_list:
  assumes "8 * i + 7 \<le> length x"
  shows "knot_state x i = [x ! (8*i), x ! (8*i+1), x ! (8*i+2), x ! (8*i+3), x ! (8*i+4), x ! (8*i+5), x ! (8*i+6)]"
proof (rule nth_equalityI)
  show "length (knot_state x i) = length [x ! (8*i), x ! (8*i+1), x ! (8*i+2), x ! (8*i+3), x ! (8*i+4), x ! (8*i+5), x ! (8*i+6)]"
    using assms by (simp add: knot_state_def)
next
  fix k assume "k < length (knot_state x i)"
  then have k: "k < 7" by (simp add: knot_state_def)
  then consider "k = 0" | "k = 1" | "k = 2" | "k = 3" | "k = 4" | "k = 5" | "k = 6" by linarith
  then show "knot_state x i ! k = [x ! (8*i), x ! (8*i+1), x ! (8*i+2), x ! (8*i+3), x ! (8*i+4), x ! (8*i+5), x ! (8*i+6)] ! k"
    using assms by cases (simp_all add: knot_state_def)
qed

lemma length_fpgm_dynamics [simp]: "length (fpgm_dynamics x z t p xd zd td pd P) = 7"
  by (simp add: fpgm_dynamics_def Let_def)

lemma std_vector_to_eigen_vector_id [simp]: "std_vector_to_eigen_vector x = x"
  by (simp add: std_vector_to_eigen_vector_def map_nth)

lemma length_knot_state: "8 * i + 7 \<le> length x \<Longrightarrow> length (knot_state x i) = 7"
  by (simp add: knot_state_def)

lemma defect_nth:
  assumes "length a = 7" "length b = 7" "length f = 7" "length g = 7" "j < 7"
  shows "vec_add (vec_sub a b) (vec_scale c (vec_add f g)) ! j = a ! j - b ! j + c * (f ! j + g ! j)"
  using assms by (simp add: vec_add_def vec_sub_def vec_scale_def)

lemma for_each_Cons_bind: "for_each (i # rest) body s = Option.bind (body i s) (for_each rest body)"
  by (simp split: option.splits)

lemma for_each_Nil_fun: "for_each [] body = Some"
  by (rule ext) simp

lemma upt7: "[0..<7] = [0, 1, 2, 3, 4, 5, 6::nat]"
  by (simp add: upt_rec)

lemma for_each7:
  "for_each [0..<7] body s =
    Option.bind (body 0 s) (\<lambda>s. Option.bind (body 1 s) (\<lambda>s. Option.bind (body 2 s) (\<lambda>s.
    Option.bind (body 3 s) (\<lambda>s. Option.bind (body 4 s) (\<lambda>s. Option.bind (body 5 s) (\<lambda>s. body 6 s))))))"
  unfolding upt7 for_each_Cons_bind for_each_Nil_fun by simp

lemma dynamics_block_eq:
  assumes "8 * i + 16 \<le> length x" "26 * i + 14 \<le> length r"
  shows "dynamics_block fpgm x i r =
    Some (pairw (pairw (pairw (pairw (pairw (pairw (pairw r
      (26*i) (trapezoid_defect fpgm x i 0) 0.01)
      (26*i+2) (trapezoid_defect fpgm x i 1) 0.01)
      (26*i+4) (trapezoid_defect fpgm x i 2) 0.01)
      (26*i+6) (trapezoid_defect fpgm x i 3) 0.01)
      (26*i+8) (trapezoid_defect fpgm x i 4) 0.01)
      (26*i+10) (trapezoid_defect fpgm x i 5) 0.01)
      (26*i+12) (trapezoid_defect fpgm x i 6) 0.01)"
proof -
  have s1: "knot_state x i = [x ! (8*i), x ! (8*i+1), x ! (8*i+2), x ! (8*i+3), x ! (8*i+4), x ! (8*i+5), x ! (8*i+6)]"
    using assms by (intro knot_state_list) simp
  have s2: "knot_state x (Suc i) = [x ! (8*i+8), x ! (8*i+9), x ! (8*i+10), x ! (8*i+11), x ! (8*i+12), x ! (8*i+13), x ! (8*i+14)]"
    using knot_state_list[of "i+1" x] assms by (simp add: add.commute)
  show ?thesis
    using assms
    apply (simp add: dynamics_block_def rd_Some for_each7 Let_def)
    apply (simp add: sbc_Some defect_nth trapezoid_defect_def knot_deriv_def knot_control_def s1 s2 Let_def add.commute mult.commute)
    done
qed

lemma length_defect_pairs [simp]: "length (defect_pairs fpgm x i r) = length r"
  by (simp add: defect_pairs_def)

lemma length_box_pairs [simp]: "length (box_pairs bd x i r) = length r"
  by (simp add: box_pairs_def)

lemma defect_pairs_frame:
  "26 * i + 14 \<le> length r \<Longrightarrow> k < 26 * i \<or> 26 * i + 14 \<le> k \<Longrightarrow> defect_pairs fpgm x i r ! k = r ! k"
  by (auto simp add: defect_pairs_def nth_pairw)

lemma defect_pairs_lower:
  assumes "26 * i + 14 \<le> length r" "j < 7"
  shows "defect_pairs fpgm x i r ! (26 * i + 2 * j) = - trapezoid_defect fpgm x i j - 0.01"
proof -
  from \<open>j < 7\<close> consider "j = 0" | "j = 1" | "j = 2" | "j = 3" | "j = 4" | "j = 5" | "j = 6" by linarith
  then show ?thesis using assms(1) by cases (simp_all add: defect_pairs_def nth_pairw)
qed

lemma defect_pairs_upper:
  assumes "26 * i + 14 \<le> length r" "j < 7"
  shows "defect_pairs fpgm x i r ! (26 * i + 2 * j + 1) = trapezoid_defect fpgm x i j - 0.01"
proof -
  from \<open>j < 7\<close> consider "j = 0" | "j = 1" | "j = 2" | "j = 3" | "j = 4" | "j = 5" | "j = 6" by linarith
  then show ?thesis using assms(1) by cases (simp_all add: defect_pairs_def nth_pairw)
qed

lemma box_pairs_frame:
  "26 * i + 26 \<le> length r \<Longrightarrow> k < 26 * i + 14 \<or> 26 * i + 26 \<le> k \<Longrightarrow> box_pairs bd x i r ! k = r ! k"
  by (auto simp add: box_pairs_def nth_pairw)

lemma box_pairs_content:
  assumes "26 * i + 26 \<le> length r"
  shows "take 12 (drop (26 * i + 14) (box_pairs bd x i r)) = box_values bd x i"
proof (rule nth_equalityI)
  show "length (take 12 (drop (26 * i + 14) (box_pairs bd x i r))) = length (box_values bd x i)"
    using assms by (simp add: box_values_def)
next
  fix k assume "k < length (take 12 (drop (26 * i + 14) (box_pairs bd x i r)))"
  then have "k \<in> set [0..<12]" by simp
  also have "[0..<12] = [0, 1, 2, 3, 4, 5, 6, 7, 8, 9, 10, 11::nat]" by (simp add: upt_rec)
  finally consider "k = 0" | "k = 1" | "k = 2" | "k = 3" | "k = 4" | "k = 5"
    | "k = 6" | "k = 7" | "k = 8" | "k = 9" | "k = 10" | "k = 11" by auto
  then show "take 12 (drop (26 * i + 14) (box_pairs bd x i r)) ! k = box_values bd x i ! k"
    using assms by cases (simp_all add: box_values_def box_pairs_def nth_pairw)
qed

lemma knot_body_eq:
  assumes "8 * i + 8 \<le> length x" "i + 1 < N \<Longrightarrow> 8 * i + 16 \<le> length x" "26 * i + 26 \<le> length r"
  shows "knot_body fpgm bd N x i r =
           Some (box_pairs bd x i (if i + 1 < N then defect_pairs fpgm x i r else r))"
proof (cases "i + 1 < N")
  case True
  then have c: "int i < int N - 1" by linarith
  have "dynamics_block fpgm x i r = Some (defect_pairs fpgm x i r)"
    unfolding defect_pairs_def using assms True by (intro dynamics_block_eq) simp_all
  then show ?thesis using True c assms
    by (simp add: knot_body_def box_block_eq box_pairs_def)
next
  case False
  then have c: "\<not> int i < int N - 1" by linarith
  then show ?thesis using False assms
    by (simp add: knot_body_def box_block_eq box_pairs_def)
qed

lemma box_pairs_nth:
  assumes "26 * i + 26 \<le> length r" "p < 12"
  shows "box_pairs bd x i r ! (26 * i + 14 + p) = box_values bd x i ! p"
proof -
  have "box_values bd x i ! p = take 12 (drop (26 * i + 14) (box_pairs bd x i r)) ! p"
    using assms by (simp add: box_pairs_content)
  also have "\<dots> = box_pairs bd x i r ! (26 * i + 14 + p)"
    using assms by simp
  finally show ?thesis by simp
qed

lemma for_each_append:
  "for_each (xs @ ys) body s = Option.bind (for_each xs body s) (for_each ys body)"
  by (induction xs arbitrary: s) (simp_all split: option.splits)

lemma for_each_upt_Suc:
  "for_each [0..<Suc i] body s = Option.bind (for_each [0..<i] body s) (body i)"
  by (cases "for_each [0..<i] body s") (simp_all add: for_each_append split: option.splits)

lemma knot_ok_cong:
  assumes "\<And>k. 26 * i \<le> k \<Longrightarrow> k < 26 * i + 26 \<Longrightarrow> r'' ! k = r' ! k"
  shows "knot_ok fpgm bd N x r i r'' = knot_ok fpgm bd N x r i r'"
  unfolding knot_ok_def
proof -
  have a: "\<And>p. p < 12 \<Longrightarrow> r'' ! (26 * i + 14 + p) = r' ! (26 * i + 14 + p)"
    by (rule assms) simp_all
  have b: "\<And>j. j < 7 \<Longrightarrow> r'' ! (26 * i + 2 * j) = r' ! (26 * i + 2 * j)"
    by (rule assms) simp_all
  have c: "\<And>j. j < 7 \<Longrightarrow> r'' ! Suc (26 * i + 2 * j) = r' ! Suc (26 * i + 2 * j)"
    by (rule assms) simp_all
  show "((\<forall>p<12. r'' ! (26 * i + 14 + p) = box_values bd x i ! p) \<and>
     (\<forall>j<7. if i + 1 < N
            then r'' ! (26 * i + 2 * j) = - trapezoid_defect fpgm x i j - 0.01 \<and>
                 r'' ! (26 * i + 2 * j + 1) = trapezoid_defect fpgm x i j - 0.01
            else r'' ! (26 * i + 2 * j) = r ! (26 * i + 2 * j) \<and>
                 r'' ! (26 * i + 2 * j + 1) = r ! (26 * i + 2 * j + 1))) =
    ((\<forall>p<12. r' ! (26 * i + 14 + p) = box_values bd x i ! p) \<and>
     (\<forall>j<7. if i + 1 < N
            then r' ! (26 * i + 2 * j) = - trapezoid_defect fpgm x i j - 0.01 \<and>
                 r' ! (26 * i + 2 * j + 1) = trapezoid_defect fpgm x i j - 0.01
            else r' ! (26 * i + 2 * j) = r ! (26 * i + 2 * j) \<and>
                 r' ! (26 * i + 2 * j + 1) = r ! (26 * i + 2 * j + 1)))"
    by (simp add: a b c cong: conj_cong)
qed

lemma length_knot_step [simp]: "length (knot_step fpgm bd N x i r) = length r"
  by (simp add: knot_step_def)

lemma knot_step_frame:
  assumes "26 * i + 26 \<le> length r" "k < 26 * i \<or> 26 * i + 26 \<le> k"
  shows "knot_step fpgm bd N x i r ! k = r ! k"
  using assms by (auto simp add: knot_step_def box_pairs_frame defect_pairs_frame)

lemma knot_step_ok:
  assumes "26 * i + 26 \<le> length r'" "\<And>k. 26 * i \<le> k \<Longrightarrow> r' ! k = r ! k"
  shows "knot_ok fpgm bd N x r i (knot_step fpgm bd N x i r')"
  unfolding knot_ok_def
proof (intro conjI allI impI)
  fix p :: nat assume "p < 12"
  then show "knot_step fpgm bd N x i r' ! (26 * i + 14 + p) = box_values bd x i ! p"
    using assms(1) by (simp add: knot_step_def box_pairs_nth)
next
  fix j :: nat assume j: "j < 7"
  show "if i + 1 < N
         then knot_step fpgm bd N x i r' ! (26 * i + 2 * j) = - trapezoid_defect fpgm x i j - 1 / 10\<^sup>2 \<and>
              knot_step fpgm bd N x i r' ! (26 * i + 2 * j + 1) = trapezoid_defect fpgm x i j - 1 / 10\<^sup>2
         else knot_step fpgm bd N x i r' ! (26 * i + 2 * j) = r ! (26 * i + 2 * j) \<and>
              knot_step fpgm bd N x i r' ! (26 * i + 2 * j + 1) = r ! (26 * i + 2 * j + 1)"
  proof (cases "i + 1 < N")
    case True
    have "knot_step fpgm bd N x i r' ! (26 * i + 2 * j) = defect_pairs fpgm x i r' ! (26 * i + 2 * j)"
      using True j assms(1) by (simp add: knot_step_def box_pairs_frame)
    moreover have "knot_step fpgm bd N x i r' ! (26 * i + 2 * j + 1) = defect_pairs fpgm x i r' ! (26 * i + 2 * j + 1)"
      using True j assms(1) by (simp add: knot_step_def box_pairs_frame)
    ultimately show ?thesis
      using True j assms(1) defect_pairs_lower[of i r' j fpgm x] defect_pairs_upper[of i r' j fpgm x]
      by simp
  next
    case False
    have "knot_step fpgm bd N x i r' ! (26 * i + 2 * j) = r' ! (26 * i + 2 * j)"
      using False j assms(1) by (simp add: knot_step_def box_pairs_frame)
    moreover have "knot_step fpgm bd N x i r' ! (26 * i + 2 * j + 1) = r' ! (26 * i + 2 * j + 1)"
      using False j assms(1) by (simp add: knot_step_def box_pairs_frame)
    ultimately show ?thesis using False assms(2) by simp
  qed
qed

lemma knot_loop:
  assumes "8 * N \<le> length x" "26 * N \<le> length r" "i \<le> N"
  shows "\<exists>r'. for_each [0..<i] (knot_body fpgm bd N x) r = Some r' \<and> length r' = length r
     \<and> (\<forall>k. 26 * i \<le> k \<longrightarrow> r' ! k = r ! k)
     \<and> (\<forall>i'<i. knot_ok fpgm bd N x r i' r')"
  using assms(3)
proof (induction i)
  case 0
  then show ?case by simp
next
  case (Suc i)
  then obtain r' where r': "for_each [0..<i] (knot_body fpgm bd N x) r = Some r'" "length r' = length r"
     "\<And>k. 26 * i \<le> k \<Longrightarrow> r' ! k = r ! k" "\<And>i'. i' < i \<Longrightarrow> knot_ok fpgm bd N x r i' r'"
    by auto
  from Suc.prems assms have b: "8 * i + 8 \<le> length x" "i + 1 < N \<Longrightarrow> 8 * i + 16 \<le> length x" "26 * i + 26 \<le> length r'"
    using r'(2) by simp_all
  let ?r = "knot_step fpgm bd N x i r'"
  have step: "knot_body fpgm bd N x i r' = Some ?r"
    unfolding knot_step_def using b by (rule knot_body_eq)
  have 1: "for_each [0..<Suc i] (knot_body fpgm bd N x) r = Some ?r"
    by (simp only: for_each_upt_Suc r'(1) step bind.simps)
  have 2: "length ?r = length r" using r'(2) by simp
  have 3: "\<forall>k. 26 * Suc i \<le> k \<longrightarrow> ?r ! k = r ! k"
    using b(3) r'(3) by (simp add: knot_step_frame)
  have 4: "\<forall>i'<Suc i. knot_ok fpgm bd N x r i' ?r"
  proof (intro allI impI)
    fix i' assume "i' < Suc i"
    then consider "i' < i" | "i' = i" by linarith
    then show "knot_ok fpgm bd N x r i' ?r"
    proof cases
      case 1
      have "knot_ok fpgm bd N x r i' ?r = knot_ok fpgm bd N x r i' r'"
        by (rule knot_ok_cong, rule knot_step_frame[OF b(3)]) (use 1 in simp)
      then show ?thesis using r'(4)[OF 1] by simp
    next
      case 2
      then show ?thesis using knot_step_ok[OF b(3), of r fpgm bd N x] r'(3) by simp
    qed
  qed
  from 1 2 3 4 show ?case by blast
qed

lemma sbc_length: "set_bounded_constrains r idx v b = Some r' \<Longrightarrow> length r' = length r"
  by (auto simp add: set_bounded_constrains_def split: if_splits)

lemma for_each_length:
  assumes "\<And>i s s'. body i s = Some s' \<Longrightarrow> length s' = length s"
  shows "for_each xs body s = Some s' \<Longrightarrow> length s' = length s"
proof (induction xs arbitrary: s)
  case Nil
  then show ?case by simp
next
  case (Cons i xs)
  then obtain t where t: "body i s = Some t" "for_each xs body t = Some s'"
    by (auto split: option.splits)
  then show ?case using Cons.IH[OF t(2)] assms[OF t(1)] by simp
qed

lemma box_block_length: "box_block bd x i r = Some r' \<Longrightarrow> length r' = length r"
  unfolding box_block_def
  by (auto simp add: bind_eq_Some_conv dest!: sbc_length)

lemma dynamics_block_length: "dynamics_block fpgm x i r = Some r' \<Longrightarrow> length r' = length r"
  unfolding dynamics_block_def Let_def
  by (auto simp add: bind_eq_Some_conv dest!: for_each_length[rotated] sbc_length)

lemma knot_body_length: "knot_body fpgm bd N x i r = Some r' \<Longrightarrow> length r' = length r"
  unfolding knot_body_def
  by (auto simp add: bind_eq_Some_conv split: if_splits dest!: box_block_length dynamics_block_length)

lemma collocation_short:
  assumes "length r < 4 + 26 * (n div 8)"
  shows "collocation_eq_constraints m r n x data = None"
proof (cases "for_each [0..<n div 8] (knot_body (fp data) (oc data) (n div 8) x) r")
  case None
  then show ?thesis by (simp add: collocation_eq_constraints_def Let_def)
next
  case (Some r')
  then have len: "length r' = length r"
    by (rule for_each_length[rotated]) (rule knot_body_length)
  show ?thesis
    using Some len assms
    by (auto simp add: collocation_eq_constraints_def Let_def set_bounded_constrains_def
        split: bind_splits if_splits)
qed

lemma collocation_result:
  assumes "n = 8 * N" "length x = n" "1 \<le> N" "4 + 26 * N \<le> length r"
    and "ix (oc data) \<noteq> []" "iz (oc data) \<noteq> []"
  shows "\<exists>r'. collocation_eq_constraints m r n x data = Some r' \<and> length r' = length r
     \<and> (\<forall>i<N. knot_ok (fp data) (oc data) N x r i r')
     \<and> r' ! (26 * N) = - x ! 0 - ix (oc data) ! 0
     \<and> r' ! (26 * N + 1) = x ! 0 - ix (oc data) ! 0
     \<and> r' ! (26 * N + 2) = - x ! 1 - iz (oc data) ! 0
     \<and> r' ! (26 * N + 3) = x ! 1 - iz (oc data) ! 0
     \<and> (\<forall>k. 26 * N + 4 \<le> k \<longrightarrow> r' ! k = r ! k)"
proof -
  have N: "n div 8 = N" using assms(1) by simp
  have "8 * N \<le> length x" "26 * N \<le> length r" "N \<le> N" using assms by simp_all
  from knot_loop[OF this, of "fp data" "oc data"]
  obtain r1 where r1: "for_each [0..<N] (knot_body (fp data) (oc data) N x) r = Some r1"
     "length r1 = length r" "\<And>k. 26 * N \<le> k \<Longrightarrow> r1 ! k = r ! k"
     "\<And>i. i < N \<Longrightarrow> knot_ok (fp data) (oc data) N x r i r1"
    by blast
  let ?r2 = "pairw r1 (26 * N) (x ! 0) (ix (oc data) ! 0)"
  let ?r3 = "pairw ?r2 (26 * N + 2) (x ! 1) (iz (oc data) ! 0)"
  have rx: "rd x 0 = Some (x ! 0)" "rd x 1 = Some (x ! 1)"
    using assms by (simp_all add: rd_def)
  have ri: "rd (ix (oc data)) 0 = Some (ix (oc data) ! 0)" "rd (iz (oc data)) 0 = Some (iz (oc data) ! 0)"
    using assms by (simp_all add: rd_def)
  have s2: "set_bounded_constrains r1 (0 + N * 26) (x ! 0) (ix (oc data) ! 0) = Some ?r2"
    using assms r1(2) by (simp add: sbc_Some mult.commute)
  have s3: "set_bounded_constrains ?r2 (2 + N * 26) (x ! 1) (iz (oc data) ! 0) = Some ?r3"
    using assms r1(2) by (simp add: sbc_Some mult.commute add.commute)
  have run: "collocation_eq_constraints m r n x data = Some ?r3"
    unfolding collocation_eq_constraints_def Let_def N
    by (simp only: r1(1) rx ri s2 s3 bind.simps)
  have len: "length ?r3 = length r" using r1(2) by simp
  have b: "26 * N + 4 \<le> length r1" using assms r1(2) by simp
  have frame: "\<And>k. k < 26 * N \<Longrightarrow> ?r3 ! k = r1 ! k"
    using b by (simp add: nth_pairw)
  have knots: "\<forall>i<N. knot_ok (fp data) (oc data) N x r i ?r3"
  proof (intro allI impI)
    fix i assume i: "i < N"
    have "knot_ok (fp data) (oc data) N x r i ?r3 = knot_ok (fp data) (oc data) N x r i r1"
      by (rule knot_ok_cong, rule frame) (use i in simp)
    then show "knot_ok (fp data) (oc data) N x r i ?r3" using r1(4)[OF i] by simp
  qed
  have a0: "?r3 ! (26 * N) = - x ! 0 - ix (oc data) ! 0"
    and a1: "?r3 ! (26 * N + 1) = x ! 0 - ix (oc data) ! 0"
    and a2: "?r3 ! (26 * N + 2) = - x ! 1 - iz (oc data) ! 0"
    and a3: "?r3 ! (26 * N + 3) = x ! 1 - iz (oc data) ! 0"
    using b by (simp_all add: nth_pairw)
  have rest: "\<forall>k. 26 * N + 4 \<le> k \<longrightarrow> ?r3 ! k = r ! k"
  proof (intro allI impI)
    fix k assume k: "26 * N + 4 \<le> k"
    show "?r3 ! k = r ! k"
    proof (cases "k < length r")
      case True
      then show ?thesis using b k r1(3)[of k] by (simp add: nth_pairw)
    next
      case False
      then show ?thesis using k r1(3)[of k] by (simp add: pairw_def)
    qed
  qed
  from run len knots a0 a1 a2 a3 rest show ?thesis by blast
qed

lemma round_half_even_of_int [simp]: "round_half_even (of_int q) = q"
  by (simp add: round_half_even_def)

lemma remainder_zero_iff: "remainder (of_int k) 8 = 0 \<longleftrightarrow> 8 dvd k"
proof
  assume "remainder (of_int k) 8 = 0"
  then have "(of_int k :: real) = of_int (round_half_even (of_int k / 8) * 8)"
    by (simp add: remainder_def)
  then have "k = round_half_even (of_int k / 8) * 8"
    using of_int_eq_iff by blast
  then show "8 dvd k" by (metis dvd_triv_right)
next
  assume "8 dvd k"
  then obtain q where q: "k = 8 * q" by (auto simp: dvd_def)
  have "(of_int k :: real) / 8 = of_int q" by (simp add: q)
  then show "remainder (of_int k) 8 = 0"
    by (simp add: remainder_def q)
qed

lemma int_of_size_eq:
  "int_of_size n = (int n + 2147483648) mod 4294967296 - 2147483648"
  by (simp add: int_of_size_def signed_of_nat signed_take_bit_eq_take_bit_shift take_bit_eq_mod)

lemma int_of_size_dvd: "8 dvd int_of_size n \<longleftrightarrow> 8 dvd n"
proof -
  have c: "(8::int) dvd 4294967296" by simp
  have "int_of_size n mod 8 = ((int n + 2147483648) mod 4294967296 mod 8 - 2147483648 mod 8) mod 8"
    unfolding int_of_size_eq by (simp only: mod_diff_eq)
  also have "\<dots> = ((int n + 2147483648) mod 8 - 2147483648 mod 8) mod 8"
    by (simp only: mod_mod_cancel[OF c])
  also have "\<dots> = (int n + 8 * 268435456) mod 8"
    by simp
  also have "\<dots> = int n mod 8"
    by (rule mod_mult_self2)
  finally have "int_of_size n mod 8 = int n mod 8" .
  then have "8 dvd int_of_size n \<longleftrightarrow> 8 dvd int n"
    by (simp add: dvd_eq_mod_eq_0)
  moreover have "(8 dvd int n) = (8 dvd n)"
    using int_dvd_int_iff[of 8 n] by simp
  ultimately show ?thesis by simp
qed

lemma int_of_size_small: "n < 2 ^ 31 \<Longrightarrow> int_of_size n = int n"
  unfolding int_of_size_eq by simp

lemma load_initial_guess_accept:
  assumes "length x = 8 * N" "8 * N < 2 ^ 31"
  shows "load_initial_guess self x = (True, self\<lparr>guess := x, N_steps := int N\<rparr>)"
proof -
  have e: "int_of_size (length x) = 8 * int N" using assms by (simp add: int_of_size_small)
  have r: "remainder (of_int (int_of_size (length x))) 8 = 0"
    unfolding remainder_zero_iff e by simp
  have d: "int_of_size (length x) sdiv 8 = int N"
    unfolding e by (auto simp add: signed_divide_int_def sgn_mult)
  show ?thesis
    unfolding load_initial_guess_def r d by (simp add: Let_def)
qed

lemma for_each_succeeds:
  assumes "\<And>i s. i \<in> set xs \<Longrightarrow> \<exists>s'. body i s = Some s'"
  shows "\<exists>s'. for_each xs body s = Some s'"
  using assms
proof (induction xs arbitrary: s)
  case Nil
  then show ?case by simp
next
  case (Cons i xs)
  from Cons.prems[of i s] obtain t where t: "body i s = Some t" by auto
  from Cons.IH[of t] Cons.prems obtain s' where "for_each xs body t = Some s'" by auto
  with t show ?case by simp
qed

lemma those_map_succeeds:
  assumes "\<And>x. x \<in> set xs \<Longrightarrow> \<exists>y. f x = Some y"
  shows "\<exists>ys. those (map f xs) = Some ys"
  using assms
proof (induction xs)
  case Nil
  then show ?case by simp
next
  case (Cons x xs)
  from Cons.prems[of x] obtain y where y: "f x = Some y" by auto
  from Cons.IH Cons.prems obtain ys where "those (map f xs) = Some ys" by auto
  with y show ?case by simp
qed

lemma print_guess_difference_succeeds:
  assumes "length x = 8 * N" "length g = 8 * N"
  shows "\<exists>u. print_guess_difference (int N) x g = Some u"
  unfolding print_guess_difference_def
proof (rule for_each_succeeds)
  fix i s assume "i \<in> set [0..<nat (int N)]"
  then have i: "i < N" by simp
  have "\<exists>ys. those (map (\<lambda>j. do {
                  a \<leftarrow> rd x (j + i * 8);
                  b \<leftarrow> rd g (j + i * 8);
                  Some (a - b) }) [0..<8]) = Some ys"
    by (rule those_map_succeeds) (use i assms in \<open>simp add: rd_def\<close>)
  then show "\<exists>s'. do {
          _ \<leftarrow> those (map (\<lambda>j. do {
                  a \<leftarrow> rd x (j + i * 8);
                  b \<leftarrow> rd g (j + i * 8);
                  Some (a - b) }) [0..<8]);
          Some s } = Some s'"
    by auto
qed

lemma to_control_state_succeeds:
  assumes "length x = 8 * N"
  shows "\<exists>fv. to_control_state (int N) x fv0 = Some fv"
  unfolding to_control_state_def
proof (rule for_each_succeeds)
  fix i and s :: control_state assume "i \<in> set [0..<nat (int N)]"
  then have i: "i < N" by simp
  show "\<exists>s'. do {
          a0 \<leftarrow> rd x (0 + i * 8);
          a1 \<leftarrow> rd x (1 + i * 8);
          a2 \<leftarrow> rd x (2 + i * 8);
          a3 \<leftarrow> rd x (3 + i * 8);
          a4 \<leftarrow> rd x (4 + i * 8);
          a5 \<leftarrow> rd x (5 + i * 8);
          Some (s\<lparr>cs_x := cs_x s @ [a0], cs_z := cs_z s @ [a1],
                   cs_theta := cs_theta s @ [a2], cs_phi := cs_phi s @ [a3],
                   cs_vx := cs_vx s @ [a4], cs_vz := cs_vz s @ [a5]\<rparr>)
        } = Some s'"
    using i assms by (simp add: rd_def)
qed

lemma configure_count:
  assumes "N_steps self = int N"
  shows "\<exists>tol. inequality_mconstraints (configure self) =
          [(4 + 26 * N,
            (\<lambda>m result n x. collocation_eq_constraints m result n x
                               \<lparr>fp = param self, oc = boundary self\<rparr>),
            tol)] \<and> length tol = 4 + 26 * N"
proof -
  have m: "nat (4 + int N * 26) = 4 + 26 * N" by (simp add: nat_add_distrib nat_mult_distrib)
  show ?thesis unfolding configure_def Let_def assms m by simp
qed

lemma nlopt_optimization_runs:
  assumes "length (guess self) = 8 * N" "1 \<le> N" "N_steps self = int N"
    and inplace: "\<forall>opt v. length (fst (nlopt_optimize opt v)) = length v"
  shows "\<exists>cs. nlopt_optimization nlopt_optimize self = Some (cs, [configure self])"
proof -
  define y where "y = fst (nlopt_optimize (configure self) (guess self))"
  have ly: "length y = 8 * N" unfolding y_def using inplace assms(1) by simp
  have ne: "guess self \<noteq> []" using assms(1,2) by auto
  have pos: "\<not> 4 + int N * 26 \<le> 0" by simp
  from print_guess_difference_succeeds[OF ly assms(1)]
  obtain u where u: "print_guess_difference (int N) y (guess self) = Some u" by blast
  from to_control_state_succeeds[OF ly]
  obtain fv where fv: "to_control_state (int N) y
      \<lparr>cs_x = [], cs_z = [], cs_theta = [], cs_phi = [], cs_vx = [], cs_vz = []\<rparr> = Some fv"
    by blast
  have "nlopt_optimization nlopt_optimize self = Some (fv, [configure self])"
    unfolding nlopt_optimization_def Let_def assms(3) y_def[symmetric]
    using ne pos by (simp add: u fv)
  then show ?thesis by blast
qed

lemma read_knot_state:
  assumes "8 * i + 7 \<le> length x"
  shows "those (map (rd x) [0 + 8 * i, 1 + 8 * i, 2 + 8 * i, 3 + 8 * i,
                             4 + 8 * i, 5 + 8 * i, 6 + 8 * i]) = Some (knot_state x i)"
  using assms by (simp add: knot_state_list rd_Some add.commute)

lemma quad_form_eq:
  assumes "rows Q = 7" "cols Q = 7" "length v = 7"
  shows "quad_form Q v = Some (quad_spec Q v)"
proof -
  have "sum_list (map (\<lambda>c. sum_list (map (\<lambda>r. v ! r * coeff Q r c) [0..<7]) * v ! c) [0..<7])
      = (\<Sum>c<7. (\<Sum>r<7. v ! r * coeff Q r c) * v ! c)"
    by (simp only: interv_sum_list_conv_sum_set_nat set_upt atLeast0LessThan)
  also have "\<dots> = (\<Sum>c<7. \<Sum>r<7. v ! r * coeff Q r c * v ! c)"
    by (simp only: sum_distrib_right)
  also have "\<dots> = quad_spec Q v"
    unfolding quad_spec_def by (rule sum.swap)
  finally show ?thesis using assms by (simp add: quad_form_def)
qed

lemma cost_body_eq:
  assumes "8 * i + 8 \<le> length x" "rows (Q_cost fpgm) = 7" "cols (Q_cost fpgm) = 7"
  shows "cost_body fpgm x i c = Some (c + knot_cost fpgm x i)"
proof -
  have b: "8 * i + 7 \<le> length x" "7 + 8 * i < length x" using assms(1) by simp_all
  have len: "length (knot_state x i) = 7" using b(1) by (rule length_knot_state)
  show ?thesis
    unfolding cost_body_def read_knot_state[OF b(1)] rd_Some[OF b(2)]
    by (simp add: quad_form_eq[OF assms(2,3) len] knot_cost_def knot_control_def add.commute)
qed

lemma cost_loop:
  assumes "8 * N \<le> length x" "rows (Q_cost fpgm) = 7" "cols (Q_cost fpgm) = 7" "i \<le> N"
  shows "for_each [0..<i] (cost_body fpgm x) 0 = Some (\<Sum>i'<i. knot_cost fpgm x i')"
  using assms(4)
proof (induction i)
  case 0
  then show ?case by simp
next
  case (Suc i)
  then have b: "8 * i + 8 \<le> length x" using assms(1) by simp
  from Suc have "for_each [0..<i] (cost_body fpgm x) 0 = Some (\<Sum>i'<i. knot_cost fpgm x i')"
    by simp
  then show ?case
    by (simp only: for_each_upt_Suc bind.simps cost_body_eq[OF b assms(2,3)] sum.lessThan_Suc)
qed

lemma control_effort_objective_eq:
  assumes "n = 8 * N" "length x = n" "1 \<le> N"
    and "rows (Q_cost (fp data)) = 7" "cols (Q_cost (fp data)) = 7"
    and "ix (oc data) \<noteq> []" "iz (oc data) \<noteq> []"
  shows "control_effort_objective n x data = Some (cost_formula data N x)"
proof -
  have N: "n div 8 = N" using assms(1) by simp
  have le: "8 * N \<le> length x" using assms(1,2) by simp
  have rx: "rd x 0 = Some (x ! 0)" "rd x 1 = Some (x ! 1)"
    using assms(1,2,3) by (simp_all add: rd_def)
  have ri: "rd (ix (oc data)) 0 = Some (ix (oc data) ! 0)"
    "rd (iz (oc data)) 0 = Some (iz (oc data) ! 0)"
    using assms(6,7) by (simp_all add: rd_def)
  show ?thesis
    unfolding control_effort_objective_def Let_def N
      cost_loop[OF le assms(4,5) order_refl] rx ri cost_formula_def
    by (simp add: mult.commute)
qed

lemma quad_spec_diag:
  assumes "\<forall>r<7. \<forall>c<7. r \<noteq> c \<longrightarrow> coeff Q r c = 0"
  shows "quad_spec Q s = (\<Sum>r<7. coeff Q r r * (s ! r)\<^sup>2)"
proof -
  have "\<And>r. r < 7 \<Longrightarrow> (\<Sum>c<7. s ! r * coeff Q r c * s ! c) = coeff Q r r * (s ! r)\<^sup>2"
  proof -
    fix r :: nat assume r: "r < 7"
    have "(\<Sum>c<7. s ! r * coeff Q r c * s ! c) = (\<Sum>c<7. if c = r then coeff Q r r * (s ! r)\<^sup>2 else 0)"
      by (rule sum.cong) (use assms r in \<open>auto simp add: power2_eq_square\<close>)
    also have "\<dots> = coeff Q r r * (s ! r)\<^sup>2"
      using r by simp
    finally show "(\<Sum>c<7. s ! r * coeff Q r c * s ! c) = coeff Q r r * (s ! r)\<^sup>2" .
  qed
  then show ?thesis unfolding quad_spec_def by simp
qed

lemma quad_spec_identity7: "quad_spec identity7 v = (\<Sum>r<7. (v ! r)\<^sup>2)"
  by (subst quad_spec_diag) (simp_all add: identity7_def)

lemma positive_definite_identity7: "positive_definite identity7"
  unfolding positive_definite_def
proof (intro conjI allI impI)
  fix v :: "real list" assume "length v = 7 \<and> (\<exists>r<7. v ! r \<noteq> 0)"
  then obtain r where r: "r < 7" "v ! r \<noteq> 0" by blast
  have "0 < (v ! r)\<^sup>2" using r(2) by simp
  also have "(v ! r)\<^sup>2 \<le> (\<Sum>r<7. (v ! r)\<^sup>2)"
    by (rule member_le_sum) (use r(1) in simp_all)
  finally show "0 < quad_spec identity7 v" by (simp only: quad_spec_identity7)
qed (simp_all add: identity7_def)

lemma sum7:
  fixes f :: "nat \<Rightarrow> real"
  shows "(\<Sum>r<7. f r) = f 0 + f 1 + f 2 + f 3 + f 4 + f 5 + f 6"
proof -
  have "{..<7::nat} = {0, 1, 2, 3, 4, 5, 6}" by auto
  then show ?thesis by simp
qed

lemma quad_spec_coupled7:
  "quad_spec coupled7 v = (\<Sum>r<7. (v ! r)\<^sup>2) - v ! 2 * v ! 3"
  by (simp add: quad_spec_def coupled7_def sum7 power2_eq_square)

lemma positive_definite_coupled7: "positive_definite coupled7"
  unfolding positive_definite_def
proof (intro conjI allI impI)
  fix v :: "real list" assume "length v = 7 \<and> (\<exists>r<7. v ! r \<noteq> 0)"
  then obtain r where r: "r < 7" "v ! r \<noteq> 0" by blast
  have pos: "0 < (v ! r)\<^sup>2" using r(2) by simp
  have le: "(v ! r)\<^sup>2 \<le> (\<Sum>r<7. (v ! r)\<^sup>2)"
    by (rule member_le_sum) (use r(1) in simp_all)
  have two: "(v ! 2)\<^sup>2 + (v ! 3)\<^sup>2 \<le> (\<Sum>r<7. (v ! r)\<^sup>2)"
    by (simp add: sum7)
  have "0 \<le> (v ! 2 - v ! 3)\<^sup>2" by simp
  then have "v ! 2 * v ! 3 \<le> ((v ! 2)\<^sup>2 + (v ! 3)\<^sup>2) / 2"
    by (simp add: power2_diff)
  moreover have "\<And>S a p m :: real. a \<le> S \<Longrightarrow> 0 < p \<Longrightarrow> p \<le> S \<Longrightarrow> m \<le> a / 2 \<Longrightarrow> 0 < S - m"
    by simp
  ultimately show "0 < quad_spec coupled7 v"
    unfolding quad_spec_coupled7 using two pos le by blast
qed (auto simp add: coupled7_def)

lemma sq_update_mono:
  fixes a b :: real
  assumes "\<bar>a\<bar> \<le> \<bar>b\<bar>"
  shows "(x[k := a] ! j)\<^sup>2 \<le> (x[k := b] ! j)\<^sup>2"
proof (cases "j = k")
  case True
  show ?thesis
  proof (cases "k < length x")
    case True
    with \<open>j = k\<close> show ?thesis using assms by (simp add: abs_le_square_iff)
  next
    case False
    then have "x[k := a] = x" "x[k := b] = x" by (simp_all add: list_update_beyond)
    then show ?thesis by simp
  qed
next
  case False
  then show ?thesis by simp
qed

lemma knot_state_nth:
  assumes "8 * i + 7 \<le> length x" "r < 7"
  shows "knot_state x i ! r = x ! (8 * i + r)"
  using assms by (simp add: knot_state_def)

lemma knot_cost_mono:
  fixes a b :: real
  assumes "8 * i + 8 \<le> length x"
    and "\<forall>r<7. \<forall>c<7. r \<noteq> c \<longrightarrow> coeff (Q_cost fpgm) r c = 0"
    and "\<forall>r<7. 0 \<le> coeff (Q_cost fpgm) r r"
    and "0 \<le> R_cost fpgm" "\<bar>a\<bar> \<le> \<bar>b\<bar>"
  shows "knot_cost fpgm (x[k := a]) i \<le> knot_cost fpgm (x[k := b]) i"
proof -
  have len: "8 * i + 7 \<le> length (x[k := a])" "8 * i + 7 \<le> length (x[k := b])"
    using assms(1) by simp_all
  have q: "quad_spec (Q_cost fpgm) (knot_state (x[k := a]) i)
         \<le> quad_spec (Q_cost fpgm) (knot_state (x[k := b]) i)"
    unfolding quad_spec_diag[OF assms(2)]
  proof (rule sum_mono)
    fix r :: nat assume "r \<in> {..<7}"
    then have r: "r < 7" by simp
    have "(x[k := a] ! (8 * i + r))\<^sup>2 \<le> (x[k := b] ! (8 * i + r))\<^sup>2"
      using assms(5) by (rule sq_update_mono)
    then show "coeff (Q_cost fpgm) r r * (knot_state (x[k := a]) i ! r)\<^sup>2
         \<le> coeff (Q_cost fpgm) r r * (knot_state (x[k := b]) i ! r)\<^sup>2"
      unfolding knot_state_nth[OF len(1) r] knot_state_nth[OF len(2) r]
      using assms(3) r by (simp add: mult_left_mono)
  qed
  have "(x[k := a] ! (8 * i + 7))\<^sup>2 \<le> (x[k := b] ! (8 * i + 7))\<^sup>2"
    using assms(5) by (rule sq_update_mono)
  then have "R_cost fpgm * (x[k := a] ! (8 * i + 7))\<^sup>2 \<le> R_cost fpgm * (x[k := b] ! (8 * i + 7))\<^sup>2"
    using assms(4) by (simp add: mult_left_mono)
  then have u: "knot_control (x[k := a]) i * R_cost fpgm * knot_control (x[k := a]) i
         \<le> knot_control (x[k := b]) i * R_cost fpgm * knot_control (x[k := b]) i"
    by (simp add: knot_control_def power2_eq_square mult.commute mult.left_commute)
  from q u show ?thesis unfolding knot_cost_def by (rule add_mono)
qed

lemma knot_state_8:
  "knot_state [a0, a1, a2, a3, a4, a5, a6, a7] 0 = [a0, a1, a2, a3, a4, a5, a6]"
  by (simp add: knot_state_def)

lemma cost_example:
  "control_effort_objective 8 [a0, a1, a2, a3, a4, a5, a6, a7] example_data =
     Some (1 / 10 * (a0\<^sup>2 + a1\<^sup>2 + a2\<^sup>2 + a3\<^sup>2 + a4\<^sup>2 + a5\<^sup>2 + a6\<^sup>2 + a7\<^sup>2)
           + 1000000 * (\<bar>a0\<bar> + \<bar>a1 - 1\<bar>))"
proof -
  have "control_effort_objective 8 [a0, a1, a2, a3, a4, a5, a6, a7] example_data =
      Some (cost_formula example_data 1 [a0, a1, a2, a3, a4, a5, a6, a7])"
    by (rule control_effort_objective_eq)
       (simp_all add: example_data_def example_param_def example_boundary_def identity7_def)
  also have "cost_formula example_data 1 [a0, a1, a2, a3, a4, a5, a6, a7] =
      1 / 10 * (a0\<^sup>2 + a1\<^sup>2 + a2\<^sup>2 + a3\<^sup>2 + a4\<^sup>2 + a5\<^sup>2 + a6\<^sup>2 + a7\<^sup>2)
           + 1000000 * (\<bar>a0\<bar> + \<bar>a1 - 1\<bar>)"
    by (simp add: cost_formula_def knot_cost_def knot_control_def knot_state_8 sum7
        quad_spec_identity7 example_data_def example_param_def example_boundary_def
        power2_eq_square)
  finally show ?thesis .
qed

lemma cost_coupled:
  "control_effort_objective 8 [a0, a1, a2, a3, a4, a5, a6, a7] coupled_data =
     Some (1 / 10 * (a0\<^sup>2 + a1\<^sup>2 + a2\<^sup>2 + a3\<^sup>2 + a4\<^sup>2 + a5\<^sup>2 + a6\<^sup>2 - a2 * a3 + a7\<^sup>2)
           + 1000000 * (\<bar>a0\<bar> + \<bar>a1 - 1\<bar>))"
proof -
  have "control_effort_objective 8 [a0, a1, a2, a3, a4, a5, a6, a7] coupled_data =
      Some (cost_formula coupled_data 1 [a0, a1, a2, a3, a4, a5, a6, a7])"
    by (rule control_effort_objective_eq)
       (simp_all add: coupled_data_def example_param_def example_boundary_def coupled7_def)
  also have "cost_formula coupled_data 1 [a0, a1, a2, a3, a4, a5, a6, a7] =
      1 / 10 * (a0\<^sup>2 + a1\<^sup>2 + a2\<^sup>2 + a3\<^sup>2 + a4\<^sup>2 + a5\<^sup>2 + a6\<^sup>2 - a2 * a3 + a7\<^sup>2)
           + 1000000 * (\<bar>a0\<bar> + \<bar>a1 - 1\<bar>)"
    by (simp add: cost_formula_def knot_cost_def knot_control_def knot_state_8 sum7
        quad_spec_coupled7 coupled_data_def example_param_def example_boundary_def
        power2_eq_square)
  finally show ?thesis .
qed

lemma cost_reversed:
  "control_effort_objective 8 [a0, a1, a2, a3, a4, a5, a6, a7] reversed_data =
     Some (- 1 / 10 * (a0\<^sup>2 + a1\<^sup>2 + a2\<^sup>2 + a3\<^sup>2 + a4\<^sup>2 + a5\<^sup>2 + a6\<^sup>2 + a7\<^sup>2)
           + 1000000 * (\<bar>a0\<bar> + \<bar>a1 - 1\<bar>))"
proof -
  have "control_effort_objective 8 [a0, a1, a2, a3, a4, a5, a6, a7] reversed_data =
      Some (cost_formula reversed_data 1 [a0, a1, a2, a3, a4, a5, a6, a7])"
    by (rule control_effort_objective_eq)
       (simp_all add: reversed_data_def example_param_def example_boundary_def identity7_def)
  also have "cost_formula reversed_data 1 [a0, a1, a2, a3, a4, a5, a6, a7] =
      - 1 / 10 * (a0\<^sup>2 + a1\<^sup>2 + a2\<^sup>2 + a3\<^sup>2 + a4\<^sup>2 + a5\<^sup>2 + a6\<^sup>2 + a7\<^sup>2)
           + 1000000 * (\<bar>a0\<bar> + \<bar>a1 - 1\<bar>)"
    by (simp add: cost_formula_def knot_cost_def knot_control_def knot_state_8 sum7
        quad_spec_identity7 reversed_data_def example_param_def example_boundary_def
        power2_eq_square)
  finally show ?thesis .
qed





section \<open>The claims\<close>

subsection \<open>Dynamics model\<close>



text \<open>
  Claim C10. The output of the dynamics model does not depend on the positions \<open>x\<close>
  and \<open>z\<close>: two inputs that differ only there have the same derivative vector.
\<close>

theorem fpgm_dynamics_translation_invariant:
  "fpgm_dynamics x z theta phi xdot zdot thetadot phidot parameter
     = fpgm_dynamics x' z' theta phi xdot zdot thetadot phidot parameter"
  by (simp add: fpgm_dynamics_def Let_def)




subsection \<open>Constraint builder\<close>

text \<open>
  Claim C1. A guess of \<open>8 N\<close> numbers, \<open>N \<ge> 1\<close>, is accepted by the loader, and the driver
  then invokes the solver once, on a handle of dimension \<open>8 N\<close> with a single
  inequality block of \<open>4 + 26 N\<close> constraints and as many tolerances. For every decision
  vector \<open>y\<close> of that length the block's callback fills an array of \<open>4 + 26 N\<close> residuals
  without leaving it: the box residuals of knot \<open>i\<close> stand at \<open>26 i + 14, \<dots>, 26 i + 25\<close>, the
  four residuals computed from the first knot's position at \<open>26 N, \<dots>, 26 N + 3\<close>, the
  last slot of the array. An array with fewer entries is overrun. The solver is any
  function that keeps the length of the array it works on; the count is assumed to
  fit a 32-bit \<^verbatim>\<open>int\<close>.
\<close>

theorem residual_count:
  assumes "length x = 8 * N" "1 \<le> N" "4 + 26 * N < 2 ^ 31"
    and "ix (boundary self) \<noteq> []" "iz (boundary self) \<noteq> []"
    and "\<forall>opt v. length (fst (nlopt_optimize opt v)) = length v"
    and "length y = 8 * N" "length result = 4 + 26 * N"
  shows "\<exists>self' cs opt cb tol r'.
       load_initial_guess self x = (True, self')
     \<and> nlopt_optimization nlopt_optimize self' = Some (cs, [opt])
     \<and> dimension opt = 8 * N
     \<and> inequality_mconstraints opt = [(4 + 26 * N, cb, tol)]
     \<and> length tol = 4 + 26 * N
     \<and> cb (4 + 26 * N) result (8 * N) y = Some r'
     \<and> length r' = 4 + 26 * N
     \<and> (\<forall>i<N. \<forall>p<12. r' ! (26 * i + 14 + p) = box_values (boundary self) y i ! p)
     \<and> r' ! (26 * N) = - y ! 0 - ix (boundary self) ! 0
     \<and> r' ! (26 * N + 1) = y ! 0 - ix (boundary self) ! 0
     \<and> r' ! (26 * N + 2) = - y ! 1 - iz (boundary self) ! 0
     \<and> r' ! (26 * N + 3) = y ! 1 - iz (boundary self) ! 0
     \<and> (\<forall>short. length short < 4 + 26 * N \<longrightarrow> cb (4 + 26 * N) short (8 * N) y = None)"
proof -
  define self' where "self' = self\<lparr>guess := x, N_steps := int N\<rparr>"
  define cp where "cp = \<lparr>fp = param self', oc = boundary self'\<rparr>"
  define cb where "cb = (\<lambda>m result n x. collocation_eq_constraints m result n x cp)"
  have small: "8 * N < 2 ^ 31" using assms(3) by simp
  have load: "load_initial_guess self x = (True, self')"
    unfolding self'_def using assms(1) small by (rule load_initial_guess_accept)
  have g: "length (guess self') = 8 * N" "N_steps self' = int N" "boundary self' = boundary self"
    using assms(1) by (simp_all add: self'_def)
  from nlopt_optimization_runs[OF g(1) assms(2) g(2) assms(6)]
  obtain cs where run: "nlopt_optimization nlopt_optimize self' = Some (cs, [configure self'])"
    by blast
  have dim: "dimension (configure self') = 8 * N"
    by (simp add: configure_def Let_def g(1))
  from configure_count[OF g(2)]
  obtain tol where tol: "inequality_mconstraints (configure self') = [(4 + 26 * N, cb, tol)]"
    "length tol = 4 + 26 * N"
    unfolding cb_def cp_def by blast
  have b: "ix (oc cp) \<noteq> []" "iz (oc cp) \<noteq> []" "oc cp = boundary self"
    using assms(4,5) by (simp_all add: cp_def g(3))
  have le: "4 + 26 * N \<le> length result" using assms(8) by simp
  from collocation_result[OF refl assms(7) assms(2) le b(1,2), of "4 + 26 * N"]
  obtain r' where r': "cb (4 + 26 * N) result (8 * N) y = Some r'" "length r' = length result"
    "\<And>i. i < N \<Longrightarrow> knot_ok (fp cp) (oc cp) N y result i r'"
    "r' ! (26 * N) = - y ! 0 - ix (oc cp) ! 0"
    "r' ! (26 * N + 1) = y ! 0 - ix (oc cp) ! 0"
    "r' ! (26 * N + 2) = - y ! 1 - iz (oc cp) ! 0"
    "r' ! (26 * N + 3) = y ! 1 - iz (oc cp) ! 0"
    unfolding cb_def by blast
  have box: "\<forall>i<N. \<forall>p<12. r' ! (26 * i + 14 + p) = box_values (boundary self) y i ! p"
    using r'(3) unfolding knot_ok_def b(3) by blast
  have short: "\<forall>short. length short < 4 + 26 * N \<longrightarrow> cb (4 + 26 * N) short (8 * N) y = None"
    unfolding cb_def by (intro allI impI collocation_short) simp
  from load run dim tol r'(1) r'(2)[unfolded assms(8)] box r'(4-7)[unfolded b(3)] short
  show ?thesis by blast
qed

text \<open>
  An instance: one knot, a solver that returns its start point, an array of 30
  residuals; an array of 29 is overrun.
\<close>

theorem residual_count_witness:
  "\<exists>self' cs opt cb tol r'.
       load_initial_guess empty_loader [0, 1, 0, 0, 0, 0, 0, 0] = (True, self')
     \<and> nlopt_optimization (\<lambda>opt v. (v, 0)) self' = Some (cs, [opt])
     \<and> dimension opt = 8
     \<and> inequality_mconstraints opt = [(30, cb, tol)]
     \<and> length tol = 30
     \<and> cb 30 (replicate 30 0) 8 [0, 1, 0, 0, 0, 0, 0, 0] = Some r'
     \<and> length r' = 30
     \<and> r' ! 14 = - 1 \<and> r' ! 25 = - 5
     \<and> r' ! 26 = 0 \<and> r' ! 27 = 0 \<and> r' ! 28 = - 2 \<and> r' ! 29 = 0
     \<and> cb 30 (replicate 29 0) 8 [0, 1, 0, 0, 0, 0, 0, 0] = None"
proof -
  have "\<exists>self' cs opt cb tol r'.
       load_initial_guess empty_loader [0, 1, 0, 0, 0, 0, 0, 0] = (True, self')
     \<and> nlopt_optimization (\<lambda>opt v. (v, 0)) self' = Some (cs, [opt])
     \<and> dimension opt = 8
     \<and> inequality_mconstraints opt = [(30, cb, tol)]
     \<and> length tol = 30
     \<and> cb 30 (replicate 30 0) 8 [0, 1, 0, 0, 0, 0, 0, 0] = Some r'
     \<and> length r' = 30
     \<and> (\<forall>i<1. \<forall>p<12. r' ! (26 * i + 14 + p) = box_values example_boundary [0, 1, 0, 0, 0, 0, 0, 0] i ! p)
     \<and> r' ! 26 = 0 \<and> r' ! 27 = 0 \<and> r' ! 28 = - 2 \<and> r' ! 29 = 0
     \<and> (\<forall>short. length short < 30 \<longrightarrow> cb 30 short 8 [0, 1, 0, 0, 0, 0, 0, 0] = None)"
    using residual_count[of "[0, 1, 0, 0, 0, 0, 0, 0]" 1 empty_loader "\<lambda>opt v. (v, 0)"
      "[0, 1, 0, 0, 0, 0, 0, 0]" "replicate 30 0"]
    by (simp add: empty_loader_def example_boundary_def)
  then obtain self' cs opt cb tol r' where w:
    "load_initial_guess empty_loader [0, 1, 0, 0, 0, 0, 0, 0] = (True, self')"
    "nlopt_optimization (\<lambda>opt v. (v, 0)) self' = Some (cs, [opt])"
    "dimension opt = 8" "inequality_mconstraints opt = [(30, cb, tol)]" "length tol = 30"
    "cb 30 (replicate 30 0) 8 [0, 1, 0, 0, 0, 0, 0, 0] = Some r'" "length r' = 30"
    "\<forall>i<1. \<forall>p<12. r' ! (26 * i + 14 + p) = box_values example_boundary [0, 1, 0, 0, 0, 0, 0, 0] i ! p"
    "r' ! 26 = 0" "r' ! 27 = 0" "r' ! 28 = - 2" "r' ! 29 = 0"
    "\<forall>short. length short < 30 \<longrightarrow> cb 30 short 8 [0, 1, 0, 0, 0, 0, 0, 0] = None"
    by (elim exE conjE) (rule that, assumption+)
  have b0: "r' ! 14 = - 1"
    using w(8)[rule_format, of 0 0] by (simp add: box_values_def example_boundary_def)
  have b11: "r' ! 25 = - 5"
    using w(8)[rule_format, of 0 11] by (simp add: box_values_def example_boundary_def)
  have s: "cb 30 (replicate 29 0) 8 [0, 1, 0, 0, 0, 0, 0, 0] = None"
    using w(13)[rule_format, of "replicate 29 0"] by simp
  show ?thesis
    apply (rule exI[of _ self'], rule exI[of _ cs], rule exI[of _ opt])
    apply (rule exI[of _ cb], rule exI[of _ tol], rule exI[of _ r'])
    using w(1-7) b0 b11 w(9-12) s by simp
qed

text \<open>
  Claim C2. For a decision vector of \<open>N \<ge> 2\<close> knots and every knot \<open>i \<le> N - 2\<close>, the
  builder writes, for each component \<open>j < 7\<close> of the trapezoidal defect of the knots
  \<open>i\<close> and \<open>i + 1\<close>, the two residuals \<open>- d\<^sub>j - 0.01\<close> and \<open>d\<^sub>j - 0.01\<close> at the offsets
  \<open>26 i + 2 j\<close> and \<open>26 i + 2 j + 1\<close>; both are \<open>\<le> 0\<close> exactly when \<open>|d\<^sub>j| \<le> 0.01\<close>.
\<close>

theorem defect_residuals:
  assumes "n = 8 * N" "length x = n" "2 \<le> N" "4 + 26 * N \<le> length result"
    and "ix (oc data) \<noteq> []" "iz (oc data) \<noteq> []"
    and "i + 2 \<le> N" "j < 7"
  shows "\<exists>r'. collocation_eq_constraints m result n x data = Some r'
     \<and> r' ! (26 * i + 2 * j) = - trapezoid_defect (fp data) x i j - 0.01
     \<and> r' ! (26 * i + 2 * j + 1) = trapezoid_defect (fp data) x i j - 0.01
     \<and> ((r' ! (26 * i + 2 * j) \<le> 0 \<and> r' ! (26 * i + 2 * j + 1) \<le> 0)
          \<longleftrightarrow> \<bar>trapezoid_defect (fp data) x i j\<bar> \<le> 0.01)"
proof -
  have "1 \<le> N" using assms(3) by simp
  from collocation_result[OF assms(1,2) this assms(4,5,6), of m]
  obtain r' where r': "collocation_eq_constraints m result n x data = Some r'"
    "\<And>i. i < N \<Longrightarrow> knot_ok (fp data) (oc data) N x result i r'"
    by blast
  have i: "i < N" "i + 1 < N" using assms(7) by simp_all
  from r'(2)[OF i(1)] i(2) assms(8)
  have v: "r' ! (26 * i + 2 * j) = - trapezoid_defect (fp data) x i j - 0.01"
     "r' ! (26 * i + 2 * j + 1) = trapezoid_defect (fp data) x i j - 0.01"
    by (simp_all add: knot_ok_def)
  have "(r' ! (26 * i + 2 * j) \<le> 0 \<and> r' ! (26 * i + 2 * j + 1) \<le> 0)
          \<longleftrightarrow> \<bar>trapezoid_defect (fp data) x i j\<bar> \<le> 0.01"
    unfolding v by linarith
  with r'(1) v show ?thesis by blast
qed

text \<open>An instance with two knots: knot 0, component 2.\<close>

theorem defect_residuals_witness:
  "\<exists>r'. collocation_eq_constraints 56 (replicate 56 0) 16 (replicate 16 1) example_data = Some r'
     \<and> r' ! 4 = - trapezoid_defect example_param (replicate 16 1) 0 2 - 0.01
     \<and> r' ! 5 = trapezoid_defect example_param (replicate 16 1) 0 2 - 0.01
     \<and> ((r' ! 4 \<le> 0 \<and> r' ! 5 \<le> 0)
          \<longleftrightarrow> \<bar>trapezoid_defect example_param (replicate 16 1) 0 2\<bar> \<le> 0.01)"
  using defect_residuals[of 16 2 "replicate 16 1" "replicate 56 0" example_data 0 2 56]
  by (simp add: example_data_def example_boundary_def)

text \<open>
  Claim C4, as stated, fails. The builder appends four residuals, not two; and they
  bound the first knot's position by \<open>ix[0]\<close> and \<open>iz[0]\<close> instead of bounding its
  deviation from them. With the target \<open>(0, 1)\<close>: a first knot at \<open>(0, 0)\<close>, one unit
  below the target, has all four residuals \<open>\<le> 0\<close>, while a first knot at \<open>(0, 3/2)\<close>,
  only half a unit above the target, has a positive one. No symmetric tolerance
  around the target fits both. Each run starts with an array of sevens, so the four
  slots 26 to 29 are seen to be written.
\<close>

theorem anchor_residuals_counterexample:
  "map_option (\<lambda>r. [r ! 26, r ! 27, r ! 28, r ! 29])
     (collocation_eq_constraints 30 (replicate 30 7) 8 [0, 0, 0, 0, 0, 0, 0, 0] example_data)
     = Some [0, 0, - 1, - 1]
   \<and> map_option (\<lambda>r. [r ! 26, r ! 27, r ! 28, r ! 29])
     (collocation_eq_constraints 30 (replicate 30 7) 8 [0, 3 / 2, 0, 0, 0, 0, 0, 0] example_data)
     = Some [0, 0, - 5 / 2, 1 / 2]
   \<and> ix example_boundary ! 0 = 0 \<and> iz example_boundary ! 0 = 1"
proof -
  have A: "\<exists>r'. collocation_eq_constraints 30 (replicate 30 7) 8 [0, 0, 0, 0, 0, 0, 0, 0] example_data = Some r'
      \<and> r' ! 26 = 0 \<and> r' ! 27 = 0 \<and> r' ! 28 = - 1 \<and> r' ! 29 = - 1"
    using collocation_result[of 8 1 "[0, 0, 0, 0, 0, 0, 0, 0]" "replicate 30 7" example_data 30]
    by (auto simp add: example_data_def example_boundary_def)
  have B: "\<exists>r'. collocation_eq_constraints 30 (replicate 30 7) 8 [0, 3 / 2, 0, 0, 0, 0, 0, 0] example_data = Some r'
      \<and> r' ! 26 = 0 \<and> r' ! 27 = 0 \<and> r' ! 28 = - 5 / 2 \<and> r' ! 29 = 1 / 2"
    using collocation_result[of 8 1 "[0, 3 / 2, 0, 0, 0, 0, 0, 0]" "replicate 30 7" example_data 30]
    by (auto simp add: example_data_def example_boundary_def)
  from A B show ?thesis by (auto simp add: example_boundary_def)
qed

text \<open>
  Claim C4, amended. After the \<open>N\<close> knot blocks the builder writes four residuals, at
  the offsets \<open>26 N\<close> to \<open>26 N + 3\<close>, and nothing behind them. The first two depend only
  on the first knot's horizontal position and \<open>ix[0]\<close>, the last two only on its
  vertical position and \<open>iz[0]\<close>: two runs that agree on these agree on the residuals.
  The fourteen dynamics slots of the last knot keep their old contents; for \<open>N = 1\<close>
  these are the slots 0 to 13, so no successor of the single knot is read.
\<close>

theorem anchor_residuals:
  assumes "n = 8 * N" "1 \<le> N"
    and "length x = n" "4 + 26 * N \<le> length r" "ix (oc data) \<noteq> []" "iz (oc data) \<noteq> []"
    and "length x' = n" "4 + 26 * N \<le> length r'" "ix (oc data') \<noteq> []" "iz (oc data') \<noteq> []"
  shows "\<exists>a b. collocation_eq_constraints m r n x data = Some a
     \<and> collocation_eq_constraints m' r' n x' data' = Some b
     \<and> length a = length r
     \<and> (\<forall>k. 26 * N + 4 \<le> k \<longrightarrow> a ! k = r ! k)
     \<and> (\<forall>p<14. a ! (26 * (N - 1) + p) = r ! (26 * (N - 1) + p))
     \<and> (x ! 0 = x' ! 0 \<and> ix (oc data) ! 0 = ix (oc data') ! 0
          \<longrightarrow> a ! (26 * N) = b ! (26 * N) \<and> a ! (26 * N + 1) = b ! (26 * N + 1))
     \<and> (x ! 1 = x' ! 1 \<and> iz (oc data) ! 0 = iz (oc data') ! 0
          \<longrightarrow> a ! (26 * N + 2) = b ! (26 * N + 2) \<and> a ! (26 * N + 3) = b ! (26 * N + 3))"
proof -
  from collocation_result[OF assms(1) assms(3) assms(2) assms(4,5,6), of m]
  obtain a where a: "collocation_eq_constraints m r n x data = Some a" "length a = length r"
    "\<And>i. i < N \<Longrightarrow> knot_ok (fp data) (oc data) N x r i a"
    "a ! (26 * N) = - x ! 0 - ix (oc data) ! 0"
    "a ! (26 * N + 1) = x ! 0 - ix (oc data) ! 0"
    "a ! (26 * N + 2) = - x ! 1 - iz (oc data) ! 0"
    "a ! (26 * N + 3) = x ! 1 - iz (oc data) ! 0"
    "\<forall>k. 26 * N + 4 \<le> k \<longrightarrow> a ! k = r ! k"
    by blast
  from collocation_result[OF assms(1) assms(7) assms(2) assms(8,9,10), of m']
  obtain b where b: "collocation_eq_constraints m' r' n x' data' = Some b"
    "b ! (26 * N) = - x' ! 0 - ix (oc data') ! 0"
    "b ! (26 * N + 1) = x' ! 0 - ix (oc data') ! 0"
    "b ! (26 * N + 2) = - x' ! 1 - iz (oc data') ! 0"
    "b ! (26 * N + 3) = x' ! 1 - iz (oc data') ! 0"
    by blast
  have last: "\<forall>p<14. a ! (26 * (N - 1) + p) = r ! (26 * (N - 1) + p)"
  proof (intro allI impI)
    fix p :: nat assume p: "p < 14"
    have ok: "knot_ok (fp data) (oc data) N x r (N - 1) a" using a(3)[of "N - 1"] assms(2) by simp
    have nl: "\<not> (N - 1) + 1 < N" by simp
    have "p div 2 < 7" using p by simp
    with ok nl have e: "a ! (26 * (N - 1) + 2 * (p div 2)) = r ! (26 * (N - 1) + 2 * (p div 2))"
      "a ! (26 * (N - 1) + 2 * (p div 2) + 1) = r ! (26 * (N - 1) + 2 * (p div 2) + 1)"
      unfolding knot_ok_def by presburger+
    show "a ! (26 * (N - 1) + p) = r ! (26 * (N - 1) + p)"
    proof (cases "even p")
      case True
      then have eq: "26 * (N - 1) + 2 * (p div 2) = 26 * (N - 1) + p" by simp
      from e(1)[unfolded eq] show ?thesis .
    next
      case False
      then have eq: "26 * (N - 1) + 2 * (p div 2) + 1 = 26 * (N - 1) + p" by presburger
      from e(2)[unfolded eq] show ?thesis .
    qed
  qed
  have hor: "x ! 0 = x' ! 0 \<and> ix (oc data) ! 0 = ix (oc data') ! 0
          \<longrightarrow> a ! (26 * N) = b ! (26 * N) \<and> a ! (26 * N + 1) = b ! (26 * N + 1)"
    unfolding a(4,5) b(2,3) by simp
  have ver: "x ! 1 = x' ! 1 \<and> iz (oc data) ! 0 = iz (oc data') ! 0
          \<longrightarrow> a ! (26 * N + 2) = b ! (26 * N + 2) \<and> a ! (26 * N + 3) = b ! (26 * N + 3)"
    unfolding a(6,7) b(4,5) by simp
  from a(1,2,8) b(1) last hor ver show ?thesis by blast
qed

text \<open>
  An instance with one knot: two runs with the same first-knot position, the first on
  an array of 32 sevens, two more than needed.
\<close>

theorem anchor_residuals_witness:
  "\<exists>a b. collocation_eq_constraints 32 (replicate 32 7) 8 [0, 1, 0, 0, 0, 0, 0, 0] example_data = Some a
     \<and> collocation_eq_constraints 30 (replicate 30 0) 8 [0, 1, 2, 3, 4, 5, 6, 7] example_data = Some b
     \<and> length a = 32
     \<and> a ! 30 = 7 \<and> a ! 31 = 7
     \<and> a ! 0 = 7 \<and> a ! 13 = 7
     \<and> a ! 26 = b ! 26 \<and> a ! 27 = b ! 27 \<and> a ! 28 = b ! 28 \<and> a ! 29 = b ! 29"
proof -
  have "\<exists>a b. collocation_eq_constraints 32 (replicate 32 7) 8 [0, 1, 0, 0, 0, 0, 0, 0] example_data = Some a
     \<and> collocation_eq_constraints 30 (replicate 30 0) 8 [0, 1, 2, 3, 4, 5, 6, 7] example_data = Some b
     \<and> length a = 32
     \<and> (\<forall>k. 30 \<le> k \<longrightarrow> a ! k = replicate 32 7 ! k)
     \<and> (\<forall>p<14. a ! p = replicate 32 7 ! p)
     \<and> a ! 26 = b ! 26 \<and> a ! 27 = b ! 27 \<and> a ! 28 = b ! 28 \<and> a ! 29 = b ! 29"
    using anchor_residuals[of 8 1 "[0, 1, 0, 0, 0, 0, 0, 0]" "replicate 32 7" example_data
      "[0, 1, 2, 3, 4, 5, 6, 7]" "replicate 30 0" example_data 32 30]
    by (simp add: example_data_def example_boundary_def)
  then obtain a b where w:
    "collocation_eq_constraints 32 (replicate 32 7) 8 [0, 1, 0, 0, 0, 0, 0, 0] example_data = Some a"
    "collocation_eq_constraints 30 (replicate 30 0) 8 [0, 1, 2, 3, 4, 5, 6, 7] example_data = Some b"
    "length a = 32"
    "\<forall>k. 30 \<le> k \<longrightarrow> a ! k = replicate 32 7 ! k"
    "\<forall>p<14. a ! p = replicate 32 7 ! p"
    "a ! 26 = b ! 26" "a ! 27 = b ! 27" "a ! 28 = b ! 28" "a ! 29 = b ! 29"
    by blast
  from w(4) have f: "a ! 30 = 7" "a ! 31 = 7" by simp_all
  from w(5) have l: "a ! 0 = 7" "a ! 13 = 7" by simp_all
  show ?thesis
    apply (rule exI[of _ a], rule exI[of _ b])
    using w(1-3) f l w(6-9) by simp
qed

subsection \<open>Loader and driver\<close>

text \<open>
  Claim C6. For a guess whose length is not a multiple of 8 the loader returns
  \<open>False\<close> and leaves \<open>N\<close> as it was; but it has stored the guess before it looks at the
  length, so the object is not left as it was.
\<close>

theorem load_initial_guess_malformed:
  assumes "\<not> 8 dvd length x"
  shows "load_initial_guess self x = (False, self\<lparr>guess := x\<rparr>)"
  using assms by (simp add: load_initial_guess_def remainder_zero_iff int_of_size_dvd)

text \<open>
  An instance: nine numbers, loaded into an object whose guess is empty. The call
  fails, \<open>N\<close> is unchanged, the stored guess is now the nine numbers.
\<close>

theorem load_initial_guess_malformed_witness:
  "load_initial_guess empty_loader [0, 1, 2, 3, 4, 5, 6, 7, 8]
    = (False, empty_loader\<lparr>guess := [0, 1, 2, 3, 4, 5, 6, 7, 8]\<rparr>)
   \<and> guess (snd (load_initial_guess empty_loader [0, 1, 2, 3, 4, 5, 6, 7, 8])) \<noteq> guess empty_loader
   \<and> N_steps (snd (load_initial_guess empty_loader [0, 1, 2, 3, 4, 5, 6, 7, 8])) = N_steps empty_loader"
proof -
  have l: "length [0, 1, 2, 3, 4, 5, 6, 7, 8 :: real] = 9" by simp
  have "\<not> 8 dvd length [0, 1, 2, 3, 4, 5, 6, 7, 8 :: real]" unfolding l by simp
  from load_initial_guess_malformed[OF this, of empty_loader] show ?thesis
    by (simp add: empty_loader_def)
qed

text \<open>
  Claim C9. If the stored guess is empty, the driver returns the trajectory with six
  empty sequences, and the solver is not invoked: the list of handles is empty.
\<close>

theorem empty_guess_no_solve:
  assumes "guess self = []"
  shows "nlopt_optimization nlopt_optimize self =
     Some (\<lparr>cs_x = [], cs_z = [], cs_theta = [], cs_phi = [], cs_vx = [], cs_vz = []\<rparr>, [])"
  using assms by (simp add: nlopt_optimization_def)

text \<open>An instance: the object before any guess is loaded.\<close>

theorem empty_guess_no_solve_witness:
  "guess empty_loader = [] \<and>
   nlopt_optimization (\<lambda>opt v. (v, 0)) empty_loader =
     Some (\<lparr>cs_x = [], cs_z = [], cs_theta = [], cs_phi = [], cs_vx = [], cs_vz = []\<rparr>, [])"
  using empty_guess_no_solve[of empty_loader "\<lambda>opt v. (v, 0)"]
  by (simp add: empty_loader_def)

subsection \<open>Cost evaluator\<close>

text \<open>
  Claim C5. For a decision vector of \<open>N \<ge> 1\<close> knots, a weight matrix of seven rows and
  columns and non-empty target sequences, the cost evaluator returns
  \<open>h \<Sum>\<^sub>i\<^sub><\<^sub>N (state\<^sub>i\<^sup>T Q state\<^sub>i + control\<^sub>i R control\<^sub>i) + 10\<^sup>6 (|x\<^sub>0 - ix[0]| + |z\<^sub>0 - iz[0]|)\<close>.
\<close>

theorem cost_closed_form:
  assumes "n = 8 * N" "length x = n" "1 \<le> N"
    and "rows (Q_cost (fp data)) = 7" "cols (Q_cost (fp data)) = 7"
    and "ix (oc data) \<noteq> []" "iz (oc data) \<noteq> []"
  shows "control_effort_objective n x data = Some (cost_formula data N x)"
using assms by (rule control_effort_objective_eq)

text \<open>An instance with one knot; the value is \<open>0.1 \<sqdot> 14 + 10\<^sup>6 \<sqdot> 2\<close>.\<close>

theorem cost_closed_form_witness:
  "control_effort_objective 8 [1, 2, 0, 0, 0, 0, 0, 3] example_data
     = Some (cost_formula example_data 1 [1, 2, 0, 0, 0, 0, 0, 3])
   \<and> cost_formula example_data 1 [1, 2, 0, 0, 0, 0, 0, 3] = 2000001 + 2 / 5"
proof -
  have "control_effort_objective 8 [1, 2, 0, 0, 0, 0, 0, 3] example_data
     = Some (cost_formula example_data 1 [1, 2, 0, 0, 0, 0, 0, 3])"
    using cost_closed_form[of 8 1 "[1, 2, 0, 0, 0, 0, 0, 3]" example_data]
    by (simp add: example_data_def example_param_def example_boundary_def identity7_def)
  then show ?thesis using cost_example[of 1 2 0 0 0 0 0 3] by simp
qed

text \<open>
  Claim C7, as stated, fails, in three ways; \<open>Q\<close> is positive definite and \<open>R = 1\<close> in
  each. With unit weights and the target \<open>(0, 1)\<close>, raising the vertical position of the
  first knot from \<open>1/2\<close> to \<open>1\<close> lowers the cost from \<open>500000.025\<close> to \<open>0.1\<close>: the penalty
  measures the distance to the target, not the magnitude. With a weight matrix that
  couples pitch and elevator angle, raising the pitch from \<open>0\<close> to \<open>1/2\<close> lowers the cost
  from \<open>0.2\<close> to \<open>0.175\<close>. With a negative time step, raising the control from \<open>0\<close> to
  \<open>1\<close> lowers the cost from \<open>- 0.1\<close> to \<open>- 0.2\<close>.
\<close>

theorem cost_monotone_counterexample:
  "positive_definite identity7 \<and> positive_definite coupled7 \<and> 0 < R_cost example_param
   \<and> control_effort_objective 8 [0, 1 / 2, 0, 0, 0, 0, 0, 0] example_data = Some (500000 + 1 / 40)
   \<and> control_effort_objective 8 [0, 1, 0, 0, 0, 0, 0, 0] example_data = Some (1 / 10)
   \<and> control_effort_objective 8 [0, 1, 0, 1, 0, 0, 0, 0] coupled_data = Some (1 / 5)
   \<and> control_effort_objective 8 [0, 1, 1 / 2, 1, 0, 0, 0, 0] coupled_data = Some (7 / 40)
   \<and> control_effort_objective 8 [0, 1, 0, 0, 0, 0, 0, 0] reversed_data = Some (- 1 / 10)
   \<and> control_effort_objective 8 [0, 1, 0, 0, 0, 0, 0, 1] reversed_data = Some (- 1 / 5)"
  by (simp add: positive_definite_identity7 positive_definite_coupled7 cost_example cost_coupled
      cost_reversed example_param_def power2_eq_square)

text \<open>
  Claim C7, amended. When \<open>Q\<close> is diagonal with non-negative entries, \<open>R \<ge> 0\<close> and
  \<open>h \<ge> 0\<close>, the cost does not decrease when the magnitude of a single component \<open>k\<close> of
  the decision vector grows and all others stay fixed; for the horizontal (vertical)
  position of the first knot this needs the target \<open>ix[0]\<close> (\<open>iz[0]\<close>) to be zero.
\<close>

theorem cost_monotone_diagonal:
  fixes a b :: real
  assumes "n = 8 * N" "length x = n" "k < n"
    and "rows (Q_cost (fp data)) = 7" "cols (Q_cost (fp data)) = 7"
    and "\<forall>r<7. \<forall>c<7. r \<noteq> c \<longrightarrow> coeff (Q_cost (fp data)) r c = 0"
    and "\<forall>r<7. 0 \<le> coeff (Q_cost (fp data)) r r"
    and "0 \<le> R_cost (fp data)" "0 \<le> h_step (fp data)"
    and "ix (oc data) \<noteq> []" "iz (oc data) \<noteq> []"
    and "k = 0 \<longrightarrow> ix (oc data) ! 0 = 0" "k = 1 \<longrightarrow> iz (oc data) ! 0 = 0"
    and "\<bar>a\<bar> \<le> \<bar>b\<bar>"
  shows "\<exists>ca cb. control_effort_objective n (x[k := a]) data = Some ca
     \<and> control_effort_objective n (x[k := b]) data = Some cb \<and> ca \<le> cb"
proof -
  have N: "1 \<le> N" using assms(1,3) by simp
  have la: "length (x[k := a]) = n" and lb: "length (x[k := b]) = n" using assms(2) by simp_all
  have ca: "control_effort_objective n (x[k := a]) data = Some (cost_formula data N (x[k := a]))"
    using assms(1) la N assms(4,5,10,11) by (rule control_effort_objective_eq)
  have cb: "control_effort_objective n (x[k := b]) data = Some (cost_formula data N (x[k := b]))"
    using assms(1) lb N assms(4,5,10,11) by (rule control_effort_objective_eq)
  have "(\<Sum>i<N. knot_cost (fp data) (x[k := a]) i) \<le> (\<Sum>i<N. knot_cost (fp data) (x[k := b]) i)"
  proof (rule sum_mono)
    fix i assume "i \<in> {..<N}"
    then have "8 * i + 8 \<le> length x" using assms(1,2) by simp
    then show "knot_cost (fp data) (x[k := a]) i \<le> knot_cost (fp data) (x[k := b]) i"
      using assms(6,7,8,14) by (rule knot_cost_mono)
  qed
  then have s: "h_step (fp data) * (\<Sum>i<N. knot_cost (fp data) (x[k := a]) i)
      \<le> h_step (fp data) * (\<Sum>i<N. knot_cost (fp data) (x[k := b]) i)"
    using assms(9) by (rule mult_left_mono)
  have h: "\<bar>x[k := a] ! 0 - ix (oc data) ! 0\<bar> \<le> \<bar>x[k := b] ! 0 - ix (oc data) ! 0\<bar>"
  proof (cases "k = 0")
    case True
    then show ?thesis using assms(1,2,3,12,14) by simp
  next
    case False
    then show ?thesis by simp
  qed
  have v: "\<bar>x[k := a] ! 1 - iz (oc data) ! 0\<bar> \<le> \<bar>x[k := b] ! 1 - iz (oc data) ! 0\<bar>"
  proof (cases "k = 1")
    case True
    then show ?thesis using assms(1,2,3,13,14) by simp
  next
    case False
    then show ?thesis by simp
  qed
  have "\<And>s s' p p' q q' :: real.
      s \<le> s' \<Longrightarrow> p \<le> p' \<Longrightarrow> q \<le> q' \<Longrightarrow> s + 1000000 * (p + q) \<le> s' + 1000000 * (p' + q')"
    by simp
  from this[OF s h v] have "cost_formula data N (x[k := a]) \<le> cost_formula data N (x[k := b])"
    unfolding cost_formula_def .
  with ca cb show ?thesis by blast
qed

text \<open>An instance: the pitch of the single knot goes from \<open>- 1/2\<close> to \<open>1\<close>.\<close>

theorem cost_monotone_diagonal_witness:
  "\<exists>ca cb. control_effort_objective 8 ([0, 1, 0, 0, 0, 0, 0, 0][2 := - 1 / 2]) example_data = Some ca
     \<and> control_effort_objective 8 ([0, 1, 0, 0, 0, 0, 0, 0][2 := 1]) example_data = Some cb
     \<and> ca \<le> cb"
  using cost_monotone_diagonal[of 8 1 "[0, 1, 0, 0, 0, 0, 0, 0]" 2 example_data "- 1 / 2" 1]
  by (simp add: example_data_def example_param_def example_boundary_def identity7_def)

end
